theory Spec2Isabelle
  imports Complex_Main "HOL-Library.Word"
begin

section \<open>The password game: requirement generation and validation\<close>

text \<open>
  The repository holds the same game twice: a terminal front end in C (\<^verbatim>\<open>pw.c\<close>) and a
  browser front end in JavaScript. Both contain a generator of the round's requirements and
  a validator of the typed password. Each of the four functions is embedded below under
  its own name: \<open>generate_requirements\<close> and \<open>validate_password\<close> are the C functions,
  \<open>generateRequirements\<close> and \<open>validatePassword\<close> the JavaScript ones.

  Numbers. The C code computes on the 32-bit \<^verbatim>\<open>int\<close>. Its values are embedded as
  integers between \<open>-2^31\<close> and \<open>2^31 - 1\<close>, and every addition, subtraction and
  multiplication of the generator wraps around (\<open>add_int\<close>, \<open>sub_int\<close>, \<open>mul_int\<close>), as
  the compiled program does. C's \<^verbatim>\<open>/\<close> and \<^verbatim>\<open>%\<close> truncate towards zero and are written
  \<open>c_div\<close> and \<open>c_mod\<close>. The validators only count characters and compare, which does
  not overflow. The JavaScript code computes on doubles; they hold every integer below
  \<open>2^53\<close> exactly, and the integer arithmetic of the JavaScript generator is embedded on
  \<^typ>\<open>int\<close>, with \<^verbatim>\<open>Math.floor(a / b)\<close> as \<open>div\<close>. The one product of the source that is
  no integer, \<^verbatim>\<open>Math.random() * (round * 2 + 1)\<close>, is rounded as IEEE 754 rounds it
  (\<open>floor_of_product\<close>).
\<close>

subsection \<open>C integer arithmetic\<close>

text \<open>
  \<open>int32 x\<close> is the value of the \<^verbatim>\<open>int\<close> that a computation with the exact result \<open>x\<close>
  leaves: \<open>x\<close> itself when it fits, else \<open>x\<close> wrapped around in two's complement.
\<close>

definition int32 :: "int \<Rightarrow> int" where
  "int32 x = (x + 2147483648) mod 4294967296 - 2147483648"

definition add_int :: "int \<Rightarrow> int \<Rightarrow> int" where
  "add_int a b = int32 (a + b)"

definition sub_int :: "int \<Rightarrow> int \<Rightarrow> int" where
  "sub_int a b = int32 (a - b)"

definition mul_int :: "int \<Rightarrow> int \<Rightarrow> int" where
  "mul_int a b = int32 (a * b)"

definition c_div :: "int \<Rightarrow> int \<Rightarrow> int" where
  "c_div a b = sgn a * sgn b * (\<bar>a\<bar> div \<bar>b\<bar>)"

definition c_mod :: "int \<Rightarrow> int \<Rightarrow> int" where
  "c_mod a b = sgn a * (\<bar>a\<bar> mod \<bar>b\<bar>)"

subsection \<open>The requirements of a round\<close>

text \<open>The C struct \<^verbatim>\<open>PasswordRequirements\<close>; its flags are \<^verbatim>\<open>int\<close>s, 0 for false.\<close>

record PasswordRequirements =
  min_length :: int
  min_uppercase :: int
  min_lowercase :: int
  min_digits :: int
  min_symbols :: int
  req_start_upper_end_symbol :: int
  req_no_consecutive_chars :: int
  req_palindrome :: int
  req_digit_sum :: int
  digit_sum_target :: int

text \<open>The JavaScript object \<^verbatim>\<open>reqs\<close>; its flags are booleans.\<close>

record Requirements =
  minLength :: int
  minUppercase :: int
  minLowercase :: int
  minDigits :: int
  minSymbols :: int
  reqStartUpperEndSymbol :: bool
  reqNoConsecutiveChars :: bool
  reqPalindrome :: bool
  reqDigitSum :: bool
  digitSumTarget :: int

definition BASE_MIN_LEN :: int where
  "BASE_MIN_LEN = 6"

subsection \<open>The generators\<close>

text \<open>\<^verbatim>\<open>memset(reqs, 0, sizeof(PasswordRequirements))\<close>.\<close>

definition memset_zero :: PasswordRequirements where
  "memset_zero =
     \<lparr>min_length = 0, min_uppercase = 0, min_lowercase = 0, min_digits = 0, min_symbols = 0,
      req_start_upper_end_symbol = 0, req_no_consecutive_chars = 0, req_palindrome = 0,
      req_digit_sum = 0, digit_sum_target = 0\<rparr>"

text \<open>
  \<^verbatim>\<open>generate_requirements\<close> of \<^verbatim>\<open>pw.c\<close> writes through the pointer \<^verbatim>\<open>reqs\<close>, block after
  block. Each block of the C function is a function from the record to the updated record,
  named after the block's comment, and \<open>generate_requirements\<close> runs them in the order of the
  source.
\<close>

text \<open>"Basic Requirements" (lines 162 to 166).\<close>

definition basic_requirements :: "int \<Rightarrow> PasswordRequirements \<Rightarrow> PasswordRequirements" where
  "basic_requirements round_no reqs =
     reqs\<lparr>min_length := add_int (add_int BASE_MIN_LEN round_no) (c_div round_no 2),
          min_uppercase := add_int 1 (c_div round_no 2),
          min_lowercase := add_int 1 (c_div round_no 2),
          min_digits := add_int 1 (c_div round_no 3),
          min_symbols :=
            (if round_no > 1 then add_int 1 (c_div (sub_int round_no 1) 3) else 0)\<rparr>"

text \<open>"Ensure basic counts don't exceed length" (lines 169 to 172, and again 211 to 214).\<close>

definition ensure_length_fits :: "PasswordRequirements \<Rightarrow> PasswordRequirements" where
  "ensure_length_fits reqs =
     (let min_char_sum =
            add_int (add_int (add_int (min_uppercase reqs) (min_lowercase reqs)) (min_digits reqs))
              (min_symbols reqs)
      in if min_length reqs < min_char_sum then reqs\<lparr>min_length := min_char_sum\<rparr> else reqs)"

text \<open>"Starts with Uppercase, Ends with Symbol (Round 3+)" (lines 177 to 184).\<close>

definition start_upper_end_symbol_rule :: "int \<Rightarrow> PasswordRequirements \<Rightarrow> PasswordRequirements" where
  "start_upper_end_symbol_rule round_no reqs =
     (if round_no \<ge> 3 then
        (let reqs = reqs\<lparr>req_start_upper_end_symbol := 1\<rparr>;
             reqs = (if min_length reqs < 2 then reqs\<lparr>min_length := 2\<rparr> else reqs);
             reqs = (if min_uppercase reqs < 1 then reqs\<lparr>min_uppercase := 1\<rparr> else reqs)
         in if min_symbols reqs < 1 then reqs\<lparr>min_symbols := 1\<rparr> else reqs)
      else reqs)"

text \<open>"No Consecutive Identical Characters (Round 4+)" (lines 187 to 189).\<close>

definition no_consecutive_chars_rule :: "int \<Rightarrow> PasswordRequirements \<Rightarrow> PasswordRequirements" where
  "no_consecutive_chars_rule round_no reqs =
     (if round_no \<ge> 4 then reqs\<lparr>req_no_consecutive_chars := 1\<rparr> else reqs)"

text \<open>"Palindrome (ONLY Round 5)" (lines 192 to 198; the rest of the block is comments).\<close>

definition palindrome_rule :: "int \<Rightarrow> PasswordRequirements \<Rightarrow> PasswordRequirements" where
  "palindrome_rule round_no reqs =
     (if round_no = 5 then reqs\<lparr>req_palindrome := 1\<rparr> else reqs)"

text \<open>
  "Specific Sum of Digits (Round 7+)" (lines 201 to 207). \<open>rand_value\<close> is the value that
  the call of \<^verbatim>\<open>rand()\<close> returns; the C library gives it in \<open>0 .. RAND_MAX\<close>. The
  divisor \<open>round * 2 + 1\<close> is odd also after wrapping, so it is never 0.
\<close>

definition digit_sum_rule :: "int \<Rightarrow> int \<Rightarrow> PasswordRequirements \<Rightarrow> PasswordRequirements" where
  "digit_sum_rule round_no rand_value reqs =
     (if round_no \<ge> 7 then
        (let reqs = reqs\<lparr>req_digit_sum := 1\<rparr>;
             reqs = (if min_digits reqs < 1 then reqs\<lparr>min_digits := 1\<rparr> else reqs)
         in reqs\<lparr>digit_sum_target :=
              add_int (add_int 5 (c_div round_no 2))
                (c_mod rand_value (add_int (mul_int round_no 2) 1))\<rparr>)
      else reqs)"

text \<open>
  The whole function. Its last \<^verbatim>\<open>if\<close> (line 216) has an empty body and is left out.
\<close>

definition generate_requirements :: "int \<Rightarrow> int \<Rightarrow> PasswordRequirements" where
  "generate_requirements round_no rand_value =
     ensure_length_fits
       (digit_sum_rule round_no rand_value
         (palindrome_rule round_no
           (no_consecutive_chars_rule round_no
             (start_upper_end_symbol_rule round_no
               (ensure_length_fits
                 (basic_requirements round_no memset_zero))))))"

text \<open>
  \<^verbatim>\<open>generateRequirements\<close> of the JavaScript front end, block by block in the same way.
  \<^verbatim>\<open>Math.floor(round / 2)\<close> on an integer is \<open>div\<close>. For a round up to \<open>2^51\<close> every
  value of the function is an integer below \<open>2^53\<close>, which a double holds exactly, and the
  integers of the model are the numbers of the code; the claims about the arithmetic of
  this generator are stated for those rounds.
\<close>

definition reset_requirements :: Requirements where
  "reset_requirements =
     \<lparr>minLength = 0, minUppercase = 0, minLowercase = 0, minDigits = 0, minSymbols = 0,
      reqStartUpperEndSymbol = False, reqNoConsecutiveChars = False,
      reqPalindrome = False, reqDigitSum = False, digitSumTarget = 0\<rparr>"

definition basicRequirements :: "int \<Rightarrow> Requirements \<Rightarrow> Requirements" where
  "basicRequirements round_no reqs =
     reqs\<lparr>minLength := BASE_MIN_LEN + round_no + round_no div 2,
          minUppercase := 1 + round_no div 2,
          minLowercase := 1 + round_no div 2,
          minDigits := 1 + round_no div 3,
          minSymbols := (if round_no > 1 then 1 + (round_no - 1) div 3 else 0)\<rparr>"

definition ensureLengthFits :: "Requirements \<Rightarrow> Requirements" where
  "ensureLengthFits reqs =
     (let minCharSum = minUppercase reqs + minLowercase reqs + minDigits reqs + minSymbols reqs
      in if minLength reqs < minCharSum then reqs\<lparr>minLength := minCharSum\<rparr> else reqs)"

definition startUpperEndSymbolRule :: "int \<Rightarrow> Requirements \<Rightarrow> Requirements" where
  "startUpperEndSymbolRule round_no reqs =
     (if round_no \<ge> 3 then
        (let reqs = reqs\<lparr>reqStartUpperEndSymbol := True\<rparr>;
             reqs = (if minLength reqs < 2 then reqs\<lparr>minLength := 2\<rparr> else reqs);
             reqs = (if minUppercase reqs < 1 then reqs\<lparr>minUppercase := 1\<rparr> else reqs)
         in if minSymbols reqs < 1 then reqs\<lparr>minSymbols := 1\<rparr> else reqs)
      else reqs)"

definition noConsecutiveCharsRule :: "int \<Rightarrow> Requirements \<Rightarrow> Requirements" where
  "noConsecutiveCharsRule round_no reqs =
     (if round_no \<ge> 4 then reqs\<lparr>reqNoConsecutiveChars := True\<rparr> else reqs)"

definition palindromeRule :: "int \<Rightarrow> Requirements \<Rightarrow> Requirements" where
  "palindromeRule round_no reqs =
     (if round_no = 5 then reqs\<lparr>reqPalindrome := True\<rparr> else reqs)"

text \<open>
  \<^verbatim>\<open>Math.random()\<close> returns a double \<open>u\<close> with \<open>0 \<le> u < 1\<close>. Such a double is
  \<open>m / 2^e\<close> for natural numbers \<open>m < 2^53\<close> and \<open>e \<le> 1074\<close> with \<open>m < 2^e\<close>, and every
  such quotient is a double; \<open>random_double\<close> holds \<open>m\<close> and \<open>e\<close>.
\<close>

record random_double =
  significand :: nat
  scale :: nat

definition unit_double :: "random_double \<Rightarrow> bool" where
  "unit_double u = (significand u < 2 ^ 53 \<and> scale u \<le> 1074 \<and> significand u < 2 ^ scale u)"

text \<open>The number of binary digits of a natural number.\<close>

fun bit_length :: "nat \<Rightarrow> nat" where
  "bit_length n = (if n = 0 then 0 else Suc (bit_length (n div 2)))"

declare bit_length.simps [simp del]

text \<open>
  IEEE 754 rounding to the 53 significant bits of a double, to nearest and ties to even:
  a natural number with at most 53 binary digits stays; of a longer one the \<open>k\<close> digits
  beyond the 53rd are rounded off.
\<close>

definition round_to_53_bits :: "nat \<Rightarrow> nat" where
  "round_to_53_bits n =
     (let k = bit_length n - 53;
          q = n div 2 ^ k;
          rest = n mod 2 ^ k
      in if 2 * rest < 2 ^ k then q * 2 ^ k
         else if 2 ^ k < 2 * rest then (q + 1) * 2 ^ k
         else if even q then q * 2 ^ k
         else (q + 1) * 2 ^ k)"

text \<open>
  \<^verbatim>\<open>Math.floor(Math.random() * n)\<close> for an integer \<open>0 \<le> n < 2^53\<close>. The exact product of
  \<open>m / 2^e\<close> and \<open>n\<close> is \<open>(m * n) / 2^e\<close>; the double product is that quotient with
  the numerator rounded to 53 bits; \<^verbatim>\<open>Math.floor\<close> of a double is exact.
\<close>

definition floor_of_product :: "random_double \<Rightarrow> int \<Rightarrow> int" where
  "floor_of_product u n = int (round_to_53_bits (significand u * nat n) div 2 ^ scale u)"

definition digitSumRule :: "int \<Rightarrow> random_double \<Rightarrow> Requirements \<Rightarrow> Requirements" where
  "digitSumRule round_no random_value reqs =
     (if round_no \<ge> 7 then
        (let reqs = reqs\<lparr>reqDigitSum := True\<rparr>;
             reqs = (if minDigits reqs < 1 then reqs\<lparr>minDigits := 1\<rparr> else reqs)
         in reqs\<lparr>digitSumTarget :=
              5 + round_no div 2 + floor_of_product random_value (round_no * 2 + 1)\<rparr>)
      else reqs)"

definition generateRequirements :: "int \<Rightarrow> random_double \<Rightarrow> Requirements" where
  "generateRequirements round_no random_value =
     ensureLengthFits
       (digitSumRule round_no random_value
         (palindromeRule round_no
           (noConsecutiveCharsRule round_no
             (startUpperEndSymbolRule round_no
               (ensureLengthFits
                 (basicRequirements round_no reset_requirements))))))"

subsection \<open>Characters and strings of the C front end\<close>

text \<open>
  A C string is a sequence of bytes ended by the first NUL byte. The argument
  \<open>password\<close> of the C functions below is the content of the buffer that the pointer refers
  to; the buffer ends with a NUL byte that is not part of the list, so that every list is a
  well-formed C string. \<open>c_string\<close> is the text the buffer holds. A read at an index outside
  the buffer is undefined behaviour in C; the model makes it the value \<open>Inl Out_of_bounds_read\<close>.

  The character tests are those of \<^verbatim>\<open>ctype.h\<close> in the "C" locale, which is the locale of a
  program that never calls \<^verbatim>\<open>setlocale\<close>; the C library's tables are total on bytes.
\<close>

definition NUL :: char where
  "NUL = CHR 0x00"

definition char_code :: "char \<Rightarrow> int" where
  "char_code c = of_char c"

definition isupper :: "char \<Rightarrow> bool" where
  "isupper c = (65 \<le> char_code c \<and> char_code c \<le> 90)"

definition islower :: "char \<Rightarrow> bool" where
  "islower c = (97 \<le> char_code c \<and> char_code c \<le> 122)"

definition isdigit :: "char \<Rightarrow> bool" where
  "isdigit c = (48 \<le> char_code c \<and> char_code c \<le> 57)"

definition isspace :: "char \<Rightarrow> bool" where
  "isspace c = (char_code c = 32 \<or> (9 \<le> char_code c \<and> char_code c \<le> 13))"

definition isprint :: "char \<Rightarrow> bool" where
  "isprint c = (32 \<le> char_code c \<and> char_code c \<le> 126)"

definition ispunct :: "char \<Rightarrow> bool" where
  "ispunct c =
     ((33 \<le> char_code c \<and> char_code c \<le> 47) \<or> (58 \<le> char_code c \<and> char_code c \<le> 64) \<or>
      (91 \<le> char_code c \<and> char_code c \<le> 96) \<or> (123 \<le> char_code c \<and> char_code c \<le> 126))"


fun strlen :: "string \<Rightarrow> int" where
  "strlen [] = 0"
| "strlen (c # cs) = (if c = NUL then 0 else 1 + strlen cs)"

datatype fault = Out_of_bounds_read

text \<open>\<^verbatim>\<open>password[i]\<close>.\<close>

definition c_at :: "string \<Rightarrow> int \<Rightarrow> fault + char" where
  "c_at password i =
     (if 0 \<le> i \<and> i < int (length password) then Inr (password ! nat i)
      else if i = int (length password) then Inr NUL
      else Inl Out_of_bounds_read)"

subsection \<open>Characters and strings of the JavaScript front end\<close>

text \<open>
  A JavaScript string is a sequence of UTF-16 code units; \<^verbatim>\<open>password[i]\<close>,
  \<^verbatim>\<open>password.length\<close>, \<^verbatim>\<open>split('')\<close> and the regular expressions of the source (none has
  the \<^verbatim>\<open>u\<close> flag) all work on code units. \<^verbatim>\<open>password[i]\<close> outside the string is
  \<^verbatim>\<open>undefined\<close>, here \<open>None\<close>. \<open>js_space\<close> is the class \<^verbatim>\<open>\s\<close> of ECMAScript.
\<close>

type_synonym js_char = "16 word"
type_synonym js_string = "js_char list"

definition js_upper :: "js_char \<Rightarrow> bool" where
  "js_upper c = (65 \<le> uint c \<and> uint c \<le> 90)"

definition js_lower :: "js_char \<Rightarrow> bool" where
  "js_lower c = (97 \<le> uint c \<and> uint c \<le> 122)"

definition js_digit :: "js_char \<Rightarrow> bool" where
  "js_digit c = (48 \<le> uint c \<and> uint c \<le> 57)"

definition js_space :: "js_char \<Rightarrow> bool" where
  "js_space c =
     ((9 \<le> uint c \<and> uint c \<le> 13) \<or> uint c = 32 \<or> uint c = 160 \<or> uint c = 5760 \<or>
      (8192 \<le> uint c \<and> uint c \<le> 8202) \<or> uint c = 8232 \<or> uint c = 8233 \<or>
      uint c = 8239 \<or> uint c = 8287 \<or> uint c = 12288 \<or> uint c = 65279)"

text \<open>\<^verbatim>\<open>isSymbol\<close>: no match of \<^verbatim>\<open>/[a-zA-Z0-9\s]/\<close>.\<close>

definition isSymbol :: "js_char \<Rightarrow> bool" where
  "isSymbol c = (\<not> (js_lower c \<or> js_upper c \<or> js_digit c \<or> js_space c))"

definition js_at :: "js_string \<Rightarrow> int \<Rightarrow> js_char option" where
  "js_at password i =
     (if 0 \<le> i \<and> i < int (length password) then Some (password ! nat i) else None)"

subsection \<open>Verdicts\<close>

text \<open>
  The C validator prints one line and returns 0, or returns 1; the JavaScript validator
  returns the line, or \<^verbatim>\<open>true\<close>. \<open>failure\<close> has one constructor for each line, with the
  values the line shows; \<open>'c\<close> is the type of the characters shown.
\<close>

datatype 'c failure =
    Too_short int int
  | Not_enough_uppercase int int
  | Not_enough_lowercase int int
  | Not_enough_digits int int
  | Not_enough_symbols int int
  | Empty_start_end
  | Must_start_upper
  | Must_end_symbol
  | Consecutive_chars 'c 'c int
  | Not_palindrome
  | Digit_sum_mismatch int int
  | Impossible_digit_sum

datatype 'c verdict = Valid | Invalid "'c failure"

text \<open>The counters of both validators.\<close>

record counts =
  upper_count :: int
  lower_count :: int
  digit_count :: int
  symbol_count :: int
  current_digit_sum :: int

definition zero_counts :: counts where
  "zero_counts = \<lparr>upper_count = 0, lower_count = 0, digit_count = 0, symbol_count = 0,
                  current_digit_sum = 0\<rparr>"

subsection \<open>The C validator\<close>

text \<open>The body of the counting loop (lines 360 to 369).\<close>

definition count_step :: "char \<Rightarrow> counts \<Rightarrow> counts" where
  "count_step c cnt =
     (if isupper c then cnt\<lparr>upper_count := upper_count cnt + 1\<rparr>
      else if islower c then cnt\<lparr>lower_count := lower_count cnt + 1\<rparr>
      else if isdigit c then
        cnt\<lparr>digit_count := digit_count cnt + 1,
            current_digit_sum := current_digit_sum cnt + (char_code c - char_code CHR ''0'')\<rparr>
      else if ispunct c then cnt\<lparr>symbol_count := symbol_count cnt + 1\<rparr>
      else cnt)"

text \<open>
  \<^verbatim>\<open>for (int i = 0; password[i] != '\0'; i++)\<close>: the loop reads the buffer from its start
  and stops at the first NUL byte, at the latest the one that ends the buffer.
\<close>

fun count_loop :: "string \<Rightarrow> counts \<Rightarrow> counts" where
  "count_loop [] cnt = cnt"
| "count_loop (c # cs) cnt = (if c = NUL then cnt else count_loop cs (count_step c cnt))"

text \<open>
  A block of the validator either reads outside the buffer, or prints a failure and
  returns 0, or falls through to the rest of the function.
\<close>

definition and_then :: "fault + 'c failure option \<Rightarrow> fault + 'c verdict \<Rightarrow> fault + 'c verdict" where
  "and_then block rest =
     (case block of Inl e \<Rightarrow> Inl e | Inr (Some f) \<Rightarrow> Inr (Invalid f) | Inr None \<Rightarrow> rest)"

text \<open>"1. Starts with Uppercase, Ends with Symbol" (lines 393 to 406).\<close>

definition start_upper_end_symbol_block ::
    "string \<Rightarrow> int \<Rightarrow> PasswordRequirements \<Rightarrow> fault + char failure option" where
  "start_upper_end_symbol_block password len reqs =
     (if req_start_upper_end_symbol reqs \<noteq> 0 then
        (if len = 0 then Inr (Some Empty_start_end)
         else case c_at password 0 of
           Inl e \<Rightarrow> Inl e
         | Inr first_char \<Rightarrow>
             if \<not> isupper first_char then Inr (Some Must_start_upper)
             else case c_at password (len - 1) of
               Inl e \<Rightarrow> Inl e
             | Inr last_char \<Rightarrow> if \<not> ispunct last_char then Inr (Some Must_end_symbol) else Inr None)
      else Inr None)"

text \<open>"2. No Consecutive Identical Characters" (lines 409 to 416).\<close>

function no_consecutive_loop :: "string \<Rightarrow> int \<Rightarrow> int \<Rightarrow> fault + char failure option" where
  "no_consecutive_loop password len i =
     (if i < len - 1 then
        (case c_at password i of
           Inl e \<Rightarrow> Inl e
         | Inr a \<Rightarrow>
             (case c_at password (i + 1) of
                Inl e \<Rightarrow> Inl e
              | Inr b \<Rightarrow>
                  if a = b then Inr (Some (Consecutive_chars a b i))
                  else no_consecutive_loop password len (i + 1)))
      else Inr None)"
  by pat_completeness auto
termination
  by (relation "measure (\<lambda>(password, len, i). nat (len - 1 - i))") auto

declare no_consecutive_loop.simps [simp del]

definition no_consecutive_chars_block ::
    "string \<Rightarrow> int \<Rightarrow> PasswordRequirements \<Rightarrow> fault + char failure option" where
  "no_consecutive_chars_block password len reqs =
     (if req_no_consecutive_chars reqs \<noteq> 0 then no_consecutive_loop password len 0 else Inr None)"

text \<open>
  "3. Palindrome Check" (lines 419 to 431). The loop returns the final value of
  \<^verbatim>\<open>is_palindrome\<close>.
\<close>

function palindrome_loop :: "string \<Rightarrow> int \<Rightarrow> int \<Rightarrow> fault + bool" where
  "palindrome_loop password len i =
     (if i < c_div len 2 then
        (case c_at password i of
           Inl e \<Rightarrow> Inl e
         | Inr a \<Rightarrow>
             (case c_at password (len - 1 - i) of
                Inl e \<Rightarrow> Inl e
              | Inr b \<Rightarrow> if a \<noteq> b then Inr False else palindrome_loop password len (i + 1)))
      else Inr True)"
  by pat_completeness auto
termination
  by (relation "measure (\<lambda>(password, len, i). nat (c_div len 2 - i))") auto

declare palindrome_loop.simps [simp del]

definition palindrome_block ::
    "string \<Rightarrow> int \<Rightarrow> PasswordRequirements \<Rightarrow> fault + char failure option" where
  "palindrome_block password len reqs =
     (if req_palindrome reqs \<noteq> 0 then
        (case palindrome_loop password len 0 of
           Inl e \<Rightarrow> Inl e
         | Inr is_palindrome \<Rightarrow> if \<not> is_palindrome then Inr (Some Not_palindrome) else Inr None)
      else Inr None)"

text \<open>"4. Digit Sum Check" (lines 434 to 446).\<close>

definition digit_sum_block :: "counts \<Rightarrow> PasswordRequirements \<Rightarrow> fault + char failure option" where
  "digit_sum_block cnt reqs =
     (if req_digit_sum reqs \<noteq> 0 then
        (if current_digit_sum cnt \<noteq> digit_sum_target reqs then
           Inr (Some (Digit_sum_mismatch (current_digit_sum cnt) (digit_sum_target reqs)))
         else if min_digits reqs = 0 \<and> digit_sum_target reqs \<noteq> 0 then
           Inr (Some Impossible_digit_sum)
         else Inr None)
      else Inr None)"

text \<open>
  \<^verbatim>\<open>validate_password\<close> (lines 343 to 451). \<open>Inr (Invalid f)\<close>: the function prints \<open>f\<close>
  and returns 0. \<open>Inr Valid\<close>: it returns 1. \<open>Inl Out_of_bounds_read\<close>: it reads outside
  the buffer.
\<close>

definition validate_password :: "string \<Rightarrow> PasswordRequirements \<Rightarrow> fault + char verdict" where
  "validate_password password reqs =
     (let len = strlen password in
      if len < min_length reqs then Inr (Invalid (Too_short len (min_length reqs)))
      else
        let cnt = count_loop password zero_counts in
        if upper_count cnt < min_uppercase reqs then
          Inr (Invalid (Not_enough_uppercase (upper_count cnt) (min_uppercase reqs)))
        else if lower_count cnt < min_lowercase reqs then
          Inr (Invalid (Not_enough_lowercase (lower_count cnt) (min_lowercase reqs)))
        else if digit_count cnt < min_digits reqs then
          Inr (Invalid (Not_enough_digits (digit_count cnt) (min_digits reqs)))
        else if symbol_count cnt < min_symbols reqs then
          Inr (Invalid (Not_enough_symbols (symbol_count cnt) (min_symbols reqs)))
        else
          and_then (start_upper_end_symbol_block password len reqs)
            (and_then (no_consecutive_chars_block password len reqs)
              (and_then (palindrome_block password len reqs)
                (and_then (digit_sum_block cnt reqs)
                  (Inr Valid)))))"

subsection \<open>The JavaScript validator\<close>

text \<open>
  The body of the counting loop. \<^verbatim>\<open>parseInt(char, 10)\<close> of a digit is its value.
\<close>

definition countStep :: "js_char \<Rightarrow> counts \<Rightarrow> counts" where
  "countStep c cnt =
     (if js_upper c then cnt\<lparr>upper_count := upper_count cnt + 1\<rparr>
      else if js_lower c then cnt\<lparr>lower_count := lower_count cnt + 1\<rparr>
      else if js_digit c then
        cnt\<lparr>digit_count := digit_count cnt + 1,
            current_digit_sum := current_digit_sum cnt + (uint c - 48)\<rparr>
      else if isSymbol c then cnt\<lparr>symbol_count := symbol_count cnt + 1\<rparr>
      else cnt)"

text \<open>\<^verbatim>\<open>for (let i = 0; i < len; i++)\<close> over \<^verbatim>\<open>password[i]\<close>.\<close>

fun countLoop :: "js_string \<Rightarrow> counts \<Rightarrow> counts" where
  "countLoop [] cnt = cnt"
| "countLoop (c # cs) cnt = countLoop cs (countStep c cnt)"

text \<open>
  The start and end rule. \<^verbatim>\<open>/^[A-Z]/.test(password)\<close> looks at the first code unit;
  \<^verbatim>\<open>isSymbol(undefined)\<close> is false, because the text \<^verbatim>\<open>undefined\<close> has a letter.
\<close>

definition startUpperEndSymbolBlock ::
    "js_string \<Rightarrow> int \<Rightarrow> Requirements \<Rightarrow> js_char option failure option" where
  "startUpperEndSymbolBlock password len reqs =
     (if reqStartUpperEndSymbol reqs then
        (if len = 0 then Some Empty_start_end
         else if \<not> (case password of [] \<Rightarrow> False | c # cs \<Rightarrow> js_upper c) then Some Must_start_upper
         else if \<not> (case js_at password (len - 1) of None \<Rightarrow> False | Some c \<Rightarrow> isSymbol c)
           then Some Must_end_symbol
         else None)
      else None)"

function noConsecutiveLoop :: "js_string \<Rightarrow> int \<Rightarrow> int \<Rightarrow> js_char option failure option" where
  "noConsecutiveLoop password len i =
     (if i < len - 1 then
        (if js_at password i = js_at password (i + 1) then
           Some (Consecutive_chars (js_at password i) (js_at password (i + 1)) i)
         else noConsecutiveLoop password len (i + 1))
      else None)"
  by pat_completeness auto
termination
  by (relation "measure (\<lambda>(password, len, i). nat (len - 1 - i))") auto

declare noConsecutiveLoop.simps [simp del]

definition noConsecutiveCharsBlock ::
    "js_string \<Rightarrow> int \<Rightarrow> Requirements \<Rightarrow> js_char option failure option" where
  "noConsecutiveCharsBlock password len reqs =
     (if reqNoConsecutiveChars reqs then noConsecutiveLoop password len 0 else None)"

text \<open>\<^verbatim>\<open>password.split('').reverse().join('')\<close> is the reversed list of code units.\<close>

definition palindromeBlock :: "js_string \<Rightarrow> Requirements \<Rightarrow> js_char option failure option" where
  "palindromeBlock password reqs =
     (if reqPalindrome reqs then
        (let reversedPassword = rev password
         in if password \<noteq> reversedPassword then Some Not_palindrome else None)
      else None)"

definition digitSumBlock :: "counts \<Rightarrow> Requirements \<Rightarrow> js_char option failure option" where
  "digitSumBlock cnt reqs =
     (if reqDigitSum reqs then
        (if current_digit_sum cnt \<noteq> digitSumTarget reqs then
           Some (Digit_sum_mismatch (current_digit_sum cnt) (digitSumTarget reqs))
         else if minDigits reqs = 0 \<and> digitSumTarget reqs \<noteq> 0 then Some Impossible_digit_sum
         else None)
      else None)"

definition andThen :: "'c failure option \<Rightarrow> 'c verdict \<Rightarrow> 'c verdict" where
  "andThen block rest = (case block of Some f \<Rightarrow> Invalid f | None \<Rightarrow> rest)"

text \<open>
  \<^verbatim>\<open>validatePassword\<close>. \<open>Invalid f\<close>: the function returns the line of \<open>f\<close>. \<open>Valid\<close>: it
  returns \<^verbatim>\<open>true\<close>. No operation of the function can throw on a string and a
  requirements object, so the model needs no error value.
\<close>

definition validatePassword :: "js_string \<Rightarrow> Requirements \<Rightarrow> js_char option verdict" where
  "validatePassword password reqs =
     (let len = int (length password);
          cnt = countLoop password zero_counts
      in
        if len < minLength reqs then Invalid (Too_short len (minLength reqs))
        else if upper_count cnt < minUppercase reqs then
          Invalid (Not_enough_uppercase (upper_count cnt) (minUppercase reqs))
        else if lower_count cnt < minLowercase reqs then
          Invalid (Not_enough_lowercase (lower_count cnt) (minLowercase reqs))
        else if digit_count cnt < minDigits reqs then
          Invalid (Not_enough_digits (digit_count cnt) (minDigits reqs))
        else if symbol_count cnt < minSymbols reqs then
          Invalid (Not_enough_symbols (symbol_count cnt) (minSymbols reqs))
        else
          andThen (startUpperEndSymbolBlock password len reqs)
            (andThen (noConsecutiveCharsBlock password len reqs)
              (andThen (palindromeBlock password reqs)
                (andThen (digitSumBlock cnt reqs)
                  Valid))))"

subsection \<open>The validator of the specification\<close>



















subsection \<open>The same password and the same requirements in both front ends\<close>







subsection \<open>The invariants of the data model\<close>

text \<open>
  The invariants I1, I2 and I3 that the specification states for a requirements record,
  for the C struct and for the JavaScript object.
\<close>

definition invariant_I1 :: "PasswordRequirements \<Rightarrow> bool" where
  "invariant_I1 reqs =
     (min_length reqs \<ge> min_uppercase reqs + min_lowercase reqs + min_digits reqs + min_symbols reqs)"

definition invariant_I2 :: "PasswordRequirements \<Rightarrow> bool" where
  "invariant_I2 reqs =
     (req_start_upper_end_symbol reqs \<noteq> 0 \<longrightarrow>
        min_uppercase reqs \<ge> 1 \<and> min_symbols reqs \<ge> 1 \<and> min_length reqs \<ge> 2)"

definition invariant_I3 :: "PasswordRequirements \<Rightarrow> bool" where
  "invariant_I3 reqs = (req_digit_sum reqs \<noteq> 0 \<longrightarrow> min_digits reqs \<ge> 1)"

definition invariantI1 :: "Requirements \<Rightarrow> bool" where
  "invariantI1 reqs =
     (minLength reqs \<ge> minUppercase reqs + minLowercase reqs + minDigits reqs + minSymbols reqs)"

definition invariantI2 :: "Requirements \<Rightarrow> bool" where
  "invariantI2 reqs =
     (reqStartUpperEndSymbol reqs \<longrightarrow>
        minUppercase reqs \<ge> 1 \<and> minSymbols reqs \<ge> 1 \<and> minLength reqs \<ge> 2)"

definition invariantI3 :: "Requirements \<Rightarrow> bool" where
  "invariantI3 reqs = (reqDigitSum reqs \<longrightarrow> minDigits reqs \<ge> 1)"

section \<open>Facts about the generators\<close>

lemma c_div_nonneg: "0 \<le> a \<Longrightarrow> 0 < b \<Longrightarrow> c_div a b = a div b"
  by (cases "a = 0") (simp_all add: c_div_def)

lemma c_mod_nonneg: "0 \<le> a \<Longrightarrow> 0 < b \<Longrightarrow> c_mod a b = a mod b"
  by (cases "a = 0") (simp_all add: c_mod_def)

lemma int32_id: "- 2147483648 \<le> x \<Longrightarrow> x \<le> 2147483647 \<Longrightarrow> int32 x = x"
  unfolding int32_def by (subst mod_pos_pos_trivial) simp_all

lemma add_int_id: "- 2147483648 \<le> a + b \<Longrightarrow> a + b \<le> 2147483647 \<Longrightarrow> add_int a b = a + b"
  by (simp only: add_int_def int32_id)

lemma sub_int_id: "- 2147483648 \<le> a - b \<Longrightarrow> a - b \<le> 2147483647 \<Longrightarrow> sub_int a b = a - b"
  by (simp only: sub_int_def int32_id)

lemma mul_int_id: "- 2147483648 \<le> a * b \<Longrightarrow> a * b \<le> 2147483647 \<Longrightarrow> mul_int a b = a * b"
  by (simp only: mul_int_def int32_id)

lemma ensure_length_fits_sel:
  "min_length (ensure_length_fits q) =
     max (min_length q)
       (add_int (add_int (add_int (min_uppercase q) (min_lowercase q)) (min_digits q)) (min_symbols q))"
  "min_uppercase (ensure_length_fits q) = min_uppercase q"
  "min_lowercase (ensure_length_fits q) = min_lowercase q"
  "min_digits (ensure_length_fits q) = min_digits q"
  "min_symbols (ensure_length_fits q) = min_symbols q"
  "req_start_upper_end_symbol (ensure_length_fits q) = req_start_upper_end_symbol q"
  "req_no_consecutive_chars (ensure_length_fits q) = req_no_consecutive_chars q"
  "req_palindrome (ensure_length_fits q) = req_palindrome q"
  "req_digit_sum (ensure_length_fits q) = req_digit_sum q"
  "digit_sum_target (ensure_length_fits q) = digit_sum_target q"
  by (simp_all add: ensure_length_fits_def Let_def)

lemma start_upper_end_symbol_rule_sel:
  "min_length (start_upper_end_symbol_rule r q) = (if 3 \<le> r then max 2 (min_length q) else min_length q)"
  "min_uppercase (start_upper_end_symbol_rule r q) = (if 3 \<le> r then max 1 (min_uppercase q) else min_uppercase q)"
  "min_lowercase (start_upper_end_symbol_rule r q) = min_lowercase q"
  "min_digits (start_upper_end_symbol_rule r q) = min_digits q"
  "min_symbols (start_upper_end_symbol_rule r q) = (if 3 \<le> r then max 1 (min_symbols q) else min_symbols q)"
  "req_start_upper_end_symbol (start_upper_end_symbol_rule r q) = (if 3 \<le> r then 1 else req_start_upper_end_symbol q)"
  "req_no_consecutive_chars (start_upper_end_symbol_rule r q) = req_no_consecutive_chars q"
  "req_palindrome (start_upper_end_symbol_rule r q) = req_palindrome q"
  "req_digit_sum (start_upper_end_symbol_rule r q) = req_digit_sum q"
  "digit_sum_target (start_upper_end_symbol_rule r q) = digit_sum_target q"
  by (simp_all add: start_upper_end_symbol_rule_def Let_def)

lemma no_consecutive_chars_rule_sel:
  "min_length (no_consecutive_chars_rule r q) = min_length q"
  "min_uppercase (no_consecutive_chars_rule r q) = min_uppercase q"
  "min_lowercase (no_consecutive_chars_rule r q) = min_lowercase q"
  "min_digits (no_consecutive_chars_rule r q) = min_digits q"
  "min_symbols (no_consecutive_chars_rule r q) = min_symbols q"
  "req_start_upper_end_symbol (no_consecutive_chars_rule r q) = req_start_upper_end_symbol q"
  "req_no_consecutive_chars (no_consecutive_chars_rule r q) = (if 4 \<le> r then 1 else req_no_consecutive_chars q)"
  "req_palindrome (no_consecutive_chars_rule r q) = req_palindrome q"
  "req_digit_sum (no_consecutive_chars_rule r q) = req_digit_sum q"
  "digit_sum_target (no_consecutive_chars_rule r q) = digit_sum_target q"
  by (simp_all add: no_consecutive_chars_rule_def)

lemma palindrome_rule_sel:
  "min_length (palindrome_rule r q) = min_length q"
  "min_uppercase (palindrome_rule r q) = min_uppercase q"
  "min_lowercase (palindrome_rule r q) = min_lowercase q"
  "min_digits (palindrome_rule r q) = min_digits q"
  "min_symbols (palindrome_rule r q) = min_symbols q"
  "req_start_upper_end_symbol (palindrome_rule r q) = req_start_upper_end_symbol q"
  "req_no_consecutive_chars (palindrome_rule r q) = req_no_consecutive_chars q"
  "req_palindrome (palindrome_rule r q) = (if r = 5 then 1 else req_palindrome q)"
  "req_digit_sum (palindrome_rule r q) = req_digit_sum q"
  "digit_sum_target (palindrome_rule r q) = digit_sum_target q"
  by (simp_all add: palindrome_rule_def)

lemma digit_sum_rule_sel:
  "min_length (digit_sum_rule r x q) = min_length q"
  "min_uppercase (digit_sum_rule r x q) = min_uppercase q"
  "min_lowercase (digit_sum_rule r x q) = min_lowercase q"
  "min_digits (digit_sum_rule r x q) = (if 7 \<le> r then max 1 (min_digits q) else min_digits q)"
  "min_symbols (digit_sum_rule r x q) = min_symbols q"
  "req_start_upper_end_symbol (digit_sum_rule r x q) = req_start_upper_end_symbol q"
  "req_no_consecutive_chars (digit_sum_rule r x q) = req_no_consecutive_chars q"
  "req_palindrome (digit_sum_rule r x q) = req_palindrome q"
  "req_digit_sum (digit_sum_rule r x q) = (if 7 \<le> r then 1 else req_digit_sum q)"
  "digit_sum_target (digit_sum_rule r x q) =
     (if 7 \<le> r then add_int (add_int 5 (c_div r 2)) (c_mod x (add_int (mul_int r 2) 1))
      else digit_sum_target q)"
  by (simp_all add: digit_sum_rule_def Let_def)

lemma basic_requirements_sel:
  "min_length (basic_requirements r q) = add_int (add_int 6 r) (c_div r 2)"
  "min_uppercase (basic_requirements r q) = add_int 1 (c_div r 2)"
  "min_lowercase (basic_requirements r q) = add_int 1 (c_div r 2)"
  "min_digits (basic_requirements r q) = add_int 1 (c_div r 3)"
  "min_symbols (basic_requirements r q) = (if 1 < r then add_int 1 (c_div (sub_int r 1) 3) else 0)"
  "req_start_upper_end_symbol (basic_requirements r q) = req_start_upper_end_symbol q"
  "req_no_consecutive_chars (basic_requirements r q) = req_no_consecutive_chars q"
  "req_palindrome (basic_requirements r q) = req_palindrome q"
  "req_digit_sum (basic_requirements r q) = req_digit_sum q"
  "digit_sum_target (basic_requirements r q) = digit_sum_target q"
  by (simp_all add: basic_requirements_def BASE_MIN_LEN_def)

lemmas generate_requirements_sel =
  ensure_length_fits_sel start_upper_end_symbol_rule_sel no_consecutive_chars_rule_sel
  palindrome_rule_sel digit_sum_rule_sel basic_requirements_sel

lemma generate_requirements_flags:
  "req_start_upper_end_symbol (generate_requirements r x) = (if 3 \<le> r then 1 else 0)"
  "req_no_consecutive_chars (generate_requirements r x) = (if 4 \<le> r then 1 else 0)"
  "req_palindrome (generate_requirements r x) = (if r = 5 then 1 else 0)"
  "req_digit_sum (generate_requirements r x) = (if 7 \<le> r then 1 else 0)"
  "digit_sum_target (generate_requirements r x) =
     (if 7 \<le> r then add_int (add_int 5 (c_div r 2)) (c_mod x (add_int (mul_int r 2) 1)) else 0)"
  by (simp_all add: generate_requirements_def generate_requirements_sel memset_zero_def)

text \<open>The arithmetic of the basic block does not wrap for a round that is a positive int.\<close>

lemma basic_minimums_exact:
  assumes "1 \<le> r" and "r \<le> 2147483647"
  shows "add_int 1 (c_div r 2) = 1 + r div 2"
    and "add_int 1 (c_div r 3) = 1 + r div 3"
    and "add_int 1 (c_div (sub_int r 1) 3) = 1 + (r - 1) div 3"
proof -
  have a: "0 \<le> r div 2" "0 \<le> r div 3" "0 \<le> (r - 1) div 3"
    using assms(1) by simp_all
  have b: "r div 2 \<le> 2147483647 div 2" "r div 3 \<le> 2147483647 div 3"
    "(r - 1) div 3 \<le> 2147483646 div 3"
    using assms(2) by (intro zdiv_mono1; simp)+
  have s: "sub_int r 1 = r - 1"
    using assms by (intro sub_int_id) linarith+
  show "add_int 1 (c_div r 2) = 1 + r div 2"
    using assms(1) a(1) b(1) by (simp add: c_div_nonneg add_int_id)
  show "add_int 1 (c_div r 3) = 1 + r div 3"
    using assms(1) a(2) b(2) by (simp add: c_div_nonneg add_int_id)
  show "add_int 1 (c_div (sub_int r 1) 3) = 1 + (r - 1) div 3"
    using assms(1) a(3) b(3) by (simp add: s c_div_nonneg add_int_id)
qed

lemma basic_length_exact:
  assumes "1 \<le> r" and "r \<le> 1431655761"
  shows "add_int (add_int 6 r) (c_div r 2) = 6 + r + r div 2"
proof -
  have a: "0 \<le> r div 2"
    using assms(1) by simp
  have b: "r div 2 \<le> 1431655761 div 2"
    using assms(2) by (intro zdiv_mono1) simp_all
  have "add_int 6 r = 6 + r"
    using assms by (intro add_int_id) linarith+
  moreover have "add_int (6 + r) (r div 2) = 6 + r + r div 2"
    using assms a b by (intro add_int_id) simp_all
  ultimately show ?thesis
    using assms(1) by (simp add: c_div_nonneg)
qed

lemma class_sum_exact:
  assumes "1 \<le> r" and "r \<le> 1288490187"
  shows "add_int (add_int (add_int (1 + r div 2) (1 + r div 2)) (1 + r div 3))
           (if r = 1 then 0 else 1 + (r - 1) div 3) =
         1 + r div 2 + (1 + r div 2) + (1 + r div 3) + (if r = 1 then 0 else 1 + (r - 1) div 3)"
proof -
  have a: "0 \<le> r div 2" "0 \<le> r div 3" "0 \<le> (r - 1) div 3"
    using assms(1) by simp_all
  have b: "r div 2 \<le> 1288490187 div 2" "r div 3 \<le> 1288490187 div 3"
    "(r - 1) div 3 \<le> 1288490186 div 3"
    using assms(2) by (intro zdiv_mono1; simp)+
  have 1: "add_int (1 + r div 2) (1 + r div 2) = 1 + r div 2 + (1 + r div 2)"
    using a b by (intro add_int_id) simp_all
  have 2: "add_int (1 + r div 2 + (1 + r div 2)) (1 + r div 3) =
      1 + r div 2 + (1 + r div 2) + (1 + r div 3)"
    using a b by (intro add_int_id) simp_all
  have 3: "add_int (1 + r div 2 + (1 + r div 2) + (1 + r div 3)) s =
      1 + r div 2 + (1 + r div 2) + (1 + r div 3) + s"
    if "0 \<le> s" and "s \<le> 1 + (r - 1) div 3" for s
    using a b that by (intro add_int_id) simp_all
  show ?thesis
    unfolding 1 2 using a(3) by (subst 3) simp_all
qed

lemma generate_requirements_counts:
  assumes "1 \<le> r" and "r \<le> 2147483647"
  shows "min_uppercase (generate_requirements r x) = 1 + r div 2"
    and "min_lowercase (generate_requirements r x) = 1 + r div 2"
    and "min_digits (generate_requirements r x) = 1 + r div 3"
    and "min_symbols (generate_requirements r x) = (if r = 1 then 0 else 1 + (r - 1) div 3)"
proof -
  note e = basic_minimums_exact[OF assms]
  have a: "0 \<le> r div 2" "0 \<le> r div 3" "0 \<le> (r - 1) div 3"
    using assms(1) by simp_all
  have m: "max 1 (1 + r div 2) = 1 + r div 2" "max 1 (1 + r div 3) = 1 + r div 3"
    "max 1 (1 + (r - 1) div 3) = 1 + (r - 1) div 3"
    using a by simp_all
  show "min_uppercase (generate_requirements r x) = 1 + r div 2"
    by (simp add: generate_requirements_def generate_requirements_sel e m)
  show "min_lowercase (generate_requirements r x) = 1 + r div 2"
    by (simp add: generate_requirements_def generate_requirements_sel e)
  show "min_digits (generate_requirements r x) = 1 + r div 3"
    by (simp add: generate_requirements_def generate_requirements_sel e m)
  show "min_symbols (generate_requirements r x) = (if r = 1 then 0 else 1 + (r - 1) div 3)"
    using assms(1) by (simp add: generate_requirements_def generate_requirements_sel e m)
qed

lemma generate_requirements_min_length:
  assumes "1 \<le> r" and "r \<le> 1288490187"
  shows "min_length (generate_requirements r x) =
           max (6 + r + r div 2)
             (1 + r div 2 + (1 + r div 2) + (1 + r div 3) + (if r = 1 then 0 else 1 + (r - 1) div 3))"
proof -
  have r: "r \<le> 2147483647" "r \<le> 1431655761"
    using assms(2) by simp_all
  note e = basic_minimums_exact[OF assms(1) r(1)]
  note l = basic_length_exact[OF assms(1) r(2)]
  note s = class_sum_exact[OF assms]
  have a: "0 \<le> r div 2" "0 \<le> r div 3" "0 \<le> (r - 1) div 3"
    using assms(1) by simp_all
  have m: "max 1 (1 + r div 2) = 1 + r div 2" "max 1 (1 + r div 3) = 1 + r div 3"
    "max 1 (1 + (r - 1) div 3) = 1 + (r - 1) div 3"
    using a by simp_all
  have A2: "2 \<le> 6 + r + r div 2"
    using a(1) assms(1) by linarith
  have t: "max 2 (max (6 + r + r div 2) s) = max (6 + r + r div 2) s" for s
    by (rule max.absorb2) (rule max.coboundedI1, rule A2)
  show ?thesis
  proof (cases "3 \<le> r")
    case True
    then have c: "1 < r" "r \<noteq> 1" by simp_all
    have s': "add_int (add_int (add_int (1 + r div 2) (1 + r div 2)) (1 + r div 3))
           (1 + (r - 1) div 3) =
         1 + r div 2 + (1 + r div 2) + (1 + r div 3) + (1 + (r - 1) div 3)"
      using s c by simp
    from True c show ?thesis
      by (simp add: generate_requirements_def generate_requirements_sel e l m s' t)
  next
    case False
    then have n7: "\<not> 7 \<le> r" by simp
    from False assms(1) consider "r = 1" | "r = 2" by linarith
    then show ?thesis
    proof cases
      case 1
      have "add_int (add_int (add_int 1 1) 1) 0 = 3"
        by (simp add: add_int_def int32_def)
      with 1 l e show ?thesis
        by (simp add: generate_requirements_def generate_requirements_sel)
    next
      case 2
      have "add_int (add_int (add_int 2 2) 1) 1 = 6"
        by (simp add: add_int_def int32_def)
      with 2 l e show ?thesis
        by (simp add: generate_requirements_def generate_requirements_sel)
    qed
  qed
qed

lemma ensure_length_fits_ge: "min_length q \<le> min_length (ensure_length_fits q)"
  by (simp add: ensure_length_fits_sel)

lemma generate_requirements_min_length_ge_basic:
  "min_length (basic_requirements r memset_zero) \<le> min_length (generate_requirements r x)"
proof -
  let ?q1 = "ensure_length_fits (basic_requirements r memset_zero)"
  let ?q5 = "digit_sum_rule r x (palindrome_rule r (no_consecutive_chars_rule r
              (start_upper_end_symbol_rule r ?q1)))"
  have "min_length (basic_requirements r memset_zero) \<le> min_length ?q1"
    by (rule ensure_length_fits_ge)
  also have "\<dots> \<le> min_length ?q5"
    by (simp add: digit_sum_rule_sel palindrome_rule_sel no_consecutive_chars_rule_sel
        start_upper_end_symbol_rule_sel)
  also have "\<dots> \<le> min_length (ensure_length_fits ?q5)"
    by (rule ensure_length_fits_ge)
  finally show ?thesis
    by (simp only: generate_requirements_def)
qed

lemma generate_requirements_min_length_ge:
  assumes "1 \<le> r" and "r \<le> 1431655761"
  shows "6 + r + r div 2 \<le> min_length (generate_requirements r x)"
  using generate_requirements_min_length_ge_basic[of r x]
  by (simp add: basic_requirements_sel basic_length_exact[OF assms])

lemma generate_requirements_min_length_ge_2:
  assumes "3 \<le> r"
  shows "2 \<le> min_length (generate_requirements r x)"
proof -
  let ?q1 = "ensure_length_fits (basic_requirements r memset_zero)"
  let ?q5 = "digit_sum_rule r x (palindrome_rule r (no_consecutive_chars_rule r
              (start_upper_end_symbol_rule r ?q1)))"
  have "2 \<le> min_length ?q5"
    using assms
    by (simp add: digit_sum_rule_sel palindrome_rule_sel no_consecutive_chars_rule_sel
        start_upper_end_symbol_rule_sel)
  also have "\<dots> \<le> min_length (ensure_length_fits ?q5)"
    by (rule ensure_length_fits_ge)
  finally show ?thesis
    by (simp only: generate_requirements_def)
qed

lemma generate_requirements_min_length_pos:
  assumes "1 \<le> r"
  shows "1 \<le> min_length (generate_requirements r x)"
proof -
  consider "r = 1" | "r = 2" | "3 \<le> r"
    using assms by linarith
  then show ?thesis
  proof cases
    case 1
    then show ?thesis
      using generate_requirements_min_length_ge[of r x] by simp
  next
    case 2
    then show ?thesis
      using generate_requirements_min_length_ge[of r x] by simp
  next
    case 3
    then show ?thesis
      using generate_requirements_min_length_ge_2[of r x] by simp
  qed
qed

lemma generate_requirements_I1:
  assumes "1 \<le> r" and "r \<le> 1288490187"
  shows "invariant_I1 (generate_requirements r x)"
proof -
  have r: "r \<le> 2147483647"
    using assms(2) by simp
  show ?thesis
    unfolding invariant_I1_def generate_requirements_counts[OF assms(1) r]
      generate_requirements_min_length[OF assms]
    by simp
qed

lemma ensureLengthFits_sel:
  "minLength (ensureLengthFits q) =
     max (minLength q) (minUppercase q + minLowercase q + minDigits q + minSymbols q)"
  "minUppercase (ensureLengthFits q) = minUppercase q"
  "minLowercase (ensureLengthFits q) = minLowercase q"
  "minDigits (ensureLengthFits q) = minDigits q"
  "minSymbols (ensureLengthFits q) = minSymbols q"
  "reqStartUpperEndSymbol (ensureLengthFits q) = reqStartUpperEndSymbol q"
  "reqNoConsecutiveChars (ensureLengthFits q) = reqNoConsecutiveChars q"
  "reqPalindrome (ensureLengthFits q) = reqPalindrome q"
  "reqDigitSum (ensureLengthFits q) = reqDigitSum q"
  "digitSumTarget (ensureLengthFits q) = digitSumTarget q"
  by (simp_all add: ensureLengthFits_def Let_def)

lemma startUpperEndSymbolRule_sel:
  "minLength (startUpperEndSymbolRule r q) = (if 3 \<le> r then max 2 (minLength q) else minLength q)"
  "minUppercase (startUpperEndSymbolRule r q) = (if 3 \<le> r then max 1 (minUppercase q) else minUppercase q)"
  "minLowercase (startUpperEndSymbolRule r q) = minLowercase q"
  "minDigits (startUpperEndSymbolRule r q) = minDigits q"
  "minSymbols (startUpperEndSymbolRule r q) = (if 3 \<le> r then max 1 (minSymbols q) else minSymbols q)"
  "reqStartUpperEndSymbol (startUpperEndSymbolRule r q) = (3 \<le> r \<or> reqStartUpperEndSymbol q)"
  "reqNoConsecutiveChars (startUpperEndSymbolRule r q) = reqNoConsecutiveChars q"
  "reqPalindrome (startUpperEndSymbolRule r q) = reqPalindrome q"
  "reqDigitSum (startUpperEndSymbolRule r q) = reqDigitSum q"
  "digitSumTarget (startUpperEndSymbolRule r q) = digitSumTarget q"
  by (simp_all add: startUpperEndSymbolRule_def Let_def)

lemma noConsecutiveCharsRule_sel:
  "minLength (noConsecutiveCharsRule r q) = minLength q"
  "minUppercase (noConsecutiveCharsRule r q) = minUppercase q"
  "minLowercase (noConsecutiveCharsRule r q) = minLowercase q"
  "minDigits (noConsecutiveCharsRule r q) = minDigits q"
  "minSymbols (noConsecutiveCharsRule r q) = minSymbols q"
  "reqStartUpperEndSymbol (noConsecutiveCharsRule r q) = reqStartUpperEndSymbol q"
  "reqNoConsecutiveChars (noConsecutiveCharsRule r q) = (4 \<le> r \<or> reqNoConsecutiveChars q)"
  "reqPalindrome (noConsecutiveCharsRule r q) = reqPalindrome q"
  "reqDigitSum (noConsecutiveCharsRule r q) = reqDigitSum q"
  "digitSumTarget (noConsecutiveCharsRule r q) = digitSumTarget q"
  by (simp_all add: noConsecutiveCharsRule_def)

lemma palindromeRule_sel:
  "minLength (palindromeRule r q) = minLength q"
  "minUppercase (palindromeRule r q) = minUppercase q"
  "minLowercase (palindromeRule r q) = minLowercase q"
  "minDigits (palindromeRule r q) = minDigits q"
  "minSymbols (palindromeRule r q) = minSymbols q"
  "reqStartUpperEndSymbol (palindromeRule r q) = reqStartUpperEndSymbol q"
  "reqNoConsecutiveChars (palindromeRule r q) = reqNoConsecutiveChars q"
  "reqPalindrome (palindromeRule r q) = (r = 5 \<or> reqPalindrome q)"
  "reqDigitSum (palindromeRule r q) = reqDigitSum q"
  "digitSumTarget (palindromeRule r q) = digitSumTarget q"
  by (simp_all add: palindromeRule_def)

lemma digitSumRule_sel:
  "minLength (digitSumRule r x q) = minLength q"
  "minUppercase (digitSumRule r x q) = minUppercase q"
  "minLowercase (digitSumRule r x q) = minLowercase q"
  "minDigits (digitSumRule r x q) = (if 7 \<le> r then max 1 (minDigits q) else minDigits q)"
  "minSymbols (digitSumRule r x q) = minSymbols q"
  "reqStartUpperEndSymbol (digitSumRule r x q) = reqStartUpperEndSymbol q"
  "reqNoConsecutiveChars (digitSumRule r x q) = reqNoConsecutiveChars q"
  "reqPalindrome (digitSumRule r x q) = reqPalindrome q"
  "reqDigitSum (digitSumRule r x q) = (7 \<le> r \<or> reqDigitSum q)"
  "digitSumTarget (digitSumRule r x q) =
     (if 7 \<le> r then 5 + r div 2 + floor_of_product x (r * 2 + 1) else digitSumTarget q)"
  by (simp_all add: digitSumRule_def Let_def)

lemma basicRequirements_sel:
  "minLength (basicRequirements r q) = 6 + r + r div 2"
  "minUppercase (basicRequirements r q) = 1 + r div 2"
  "minLowercase (basicRequirements r q) = 1 + r div 2"
  "minDigits (basicRequirements r q) = 1 + r div 3"
  "minSymbols (basicRequirements r q) = (if 1 < r then 1 + (r - 1) div 3 else 0)"
  "reqStartUpperEndSymbol (basicRequirements r q) = reqStartUpperEndSymbol q"
  "reqNoConsecutiveChars (basicRequirements r q) = reqNoConsecutiveChars q"
  "reqPalindrome (basicRequirements r q) = reqPalindrome q"
  "reqDigitSum (basicRequirements r q) = reqDigitSum q"
  "digitSumTarget (basicRequirements r q) = digitSumTarget q"
  by (simp_all add: basicRequirements_def BASE_MIN_LEN_def)

lemmas generateRequirements_sel =
  ensureLengthFits_sel startUpperEndSymbolRule_sel noConsecutiveCharsRule_sel
  palindromeRule_sel digitSumRule_sel basicRequirements_sel

lemma generateRequirements_flags:
  "reqStartUpperEndSymbol (generateRequirements r x) \<longleftrightarrow> 3 \<le> r"
  "reqNoConsecutiveChars (generateRequirements r x) \<longleftrightarrow> 4 \<le> r"
  "reqPalindrome (generateRequirements r x) \<longleftrightarrow> r = 5"
  "reqDigitSum (generateRequirements r x) \<longleftrightarrow> 7 \<le> r"
  "digitSumTarget (generateRequirements r x) = (if 7 \<le> r then 5 + r div 2 + floor_of_product x (r * 2 + 1) else 0)"
  by (simp_all add: generateRequirements_def generateRequirements_sel reset_requirements_def)

lemma generateRequirements_counts:
  assumes "1 \<le> r"
  shows "minUppercase (generateRequirements r x) = 1 + r div 2"
    and "minLowercase (generateRequirements r x) = 1 + r div 2"
    and "minDigits (generateRequirements r x) = 1 + r div 3"
    and "minSymbols (generateRequirements r x) = (if r = 1 then 0 else 1 + (r - 1) div 3)"
    and "minLength (generateRequirements r x) =
           max (6 + r + r div 2)
             (1 + r div 2 + (1 + r div 2) + (1 + r div 3) + (if r = 1 then 0 else 1 + (r - 1) div 3))"
proof -
  have a: "0 \<le> r div 2" "0 \<le> r div 3" "0 \<le> (r - 1) div 3"
    using assms by simp_all
  have m: "max 1 (1 + r div 2) = 1 + r div 2" "max 1 (1 + r div 3) = 1 + r div 3"
    "max 1 (1 + (r - 1) div 3) = 1 + (r - 1) div 3"
    using a by simp_all
  show "minUppercase (generateRequirements r x) = 1 + r div 2"
    by (simp add: generateRequirements_def generateRequirements_sel m)
  show "minLowercase (generateRequirements r x) = 1 + r div 2"
    by (simp add: generateRequirements_def generateRequirements_sel)
  show "minDigits (generateRequirements r x) = 1 + r div 3"
    by (simp add: generateRequirements_def generateRequirements_sel m)
  show "minSymbols (generateRequirements r x) = (if r = 1 then 0 else 1 + (r - 1) div 3)"
    using assms by (simp add: generateRequirements_def generateRequirements_sel m)
  have A2: "2 \<le> 6 + r + r div 2"
    using a(1) assms by linarith
  have t: "max 2 (max (6 + r + r div 2) s) = max (6 + r + r div 2) s" for s
    by (rule max.absorb2) (rule max.coboundedI1, rule A2)
  show "minLength (generateRequirements r x) =
           max (6 + r + r div 2)
             (1 + r div 2 + (1 + r div 2) + (1 + r div 3) + (if r = 1 then 0 else 1 + (r - 1) div 3))"
  proof (cases "3 \<le> r")
    case True
    then have "1 < r" "r \<noteq> 1" by simp_all
    with True show ?thesis
      by (simp add: generateRequirements_def generateRequirements_sel m t)
  next
    case False
    then have "\<not> 7 \<le> r" by simp
    with False assms show ?thesis
      by (simp add: generateRequirements_def generateRequirements_sel m)
  qed
qed

lemma generateRequirements_I1: "invariantI1 (generateRequirements r u)"
  by (simp add: invariantI1_def generateRequirements_def ensureLengthFits_sel)

lemma generateRequirements_minLength_ge:
  assumes "1 \<le> r"
  shows "6 + r + r div 2 \<le> minLength (generateRequirements r u)"
  by (simp add: generateRequirements_counts(5)[OF assms])

lemmas generator_defs =
  generate_requirements_def basic_requirements_def ensure_length_fits_def
  start_upper_end_symbol_rule_def no_consecutive_chars_rule_def palindrome_rule_def
  digit_sum_rule_def memset_zero_def BASE_MIN_LEN_def c_div_def c_mod_def
  int32_def add_int_def sub_int_def mul_int_def
  generateRequirements_def basicRequirements_def ensureLengthFits_def
  startUpperEndSymbolRule_def noConsecutiveCharsRule_def palindromeRule_def
  digitSumRule_def reset_requirements_def floor_of_product_def round_to_53_bits_def
  bit_length.simps

lemma bit_length_bound: "n \<noteq> 0 \<Longrightarrow> 2 ^ bit_length n \<le> 2 * n"
proof (induction n rule: bit_length.induct)
  case (1 n)
  show ?case
  proof (cases "n div 2 = 0")
    case True
    with "1.prems" have "n = 1" by presburger
    then show ?thesis
      by (simp add: bit_length.simps)
  next
    case False
    have "2 ^ bit_length (n div 2) \<le> 2 * (n div 2)"
      using "1.IH" "1.prems" False by simp
    also have "\<dots> \<le> n" by simp
    finally have "2 * 2 ^ bit_length (n div 2) \<le> 2 * n" by simp
    moreover have "bit_length n = Suc (bit_length (n div 2))"
      using "1.prems" by (subst bit_length.simps) simp
    ultimately show ?thesis by simp
  qed
qed

lemma round_to_53_bits_le: "2 * round_to_53_bits n \<le> 2 * n + 2 ^ (bit_length n - 53)"
proof -
  let ?k = "bit_length n - 53"
  let ?q = "n div 2 ^ ?k"
  let ?rest = "n mod 2 ^ ?k"
  have n: "n = ?q * 2 ^ ?k + ?rest"
    by (simp only: div_mult_mod_eq)
  have down: "2 * (?q * 2 ^ ?k) \<le> 2 * n + 2 ^ ?k"
    using n by linarith
  have up: "2 * ((?q + 1) * 2 ^ ?k) \<le> 2 * n + 2 ^ ?k" if "2 ^ ?k \<le> 2 * ?rest"
  proof -
    have "(?q + 1) * 2 ^ ?k = ?q * 2 ^ ?k + 2 ^ ?k"
      by (simp add: algebra_simps)
    with n that show ?thesis by linarith
  qed
  show ?thesis
    unfolding round_to_53_bits_def Let_def
    using down up by auto
qed

lemma floor_of_product_range:
  assumes "unit_double u" and "0 < n"
  shows "0 \<le> floor_of_product u n" and "floor_of_product u n < n"
proof -
  let ?m = "significand u" and ?e = "scale u" and ?N = "nat n"
  let ?M = "?m * ?N"
  define k where "k = bit_length ?M - 53"
  have N: "0 < ?N" using assms(2) by simp
  have m53: "?m < 2 ^ 53" and me: "?m < 2 ^ ?e"
    using assms(1) by (simp_all add: unit_double_def)
  have k: "(2::nat) ^ k < 2 * ?N"
  proof (cases "bit_length ?M \<le> 53")
    case True
    then have "k = 0" by (simp add: k_def)
    with N show ?thesis by simp
  next
    case False
    then have b: "bit_length ?M = 53 + k" by (simp add: k_def)
    have "bit_length 0 = 0"
      by (simp add: bit_length.simps)
    with False have "?M \<noteq> 0"
      by (metis le0)
    then have "2 ^ bit_length ?M \<le> 2 * ?M"
      by (rule bit_length_bound)
    then have "(2::nat) ^ 53 * 2 ^ k \<le> 2 * ?M"
      by (simp only: b power_add)
    also have "2 * ?M = ?m * (2 * ?N)" by simp
    also have "\<dots> < 2 ^ 53 * (2 * ?N)"
      using m53 N by (intro mult_strict_right_mono) simp_all
    finally show ?thesis by simp
  qed
  have "Suc ?m \<le> 2 ^ ?e" using me by simp
  then have "Suc ?m * ?N \<le> 2 ^ ?e * ?N"
    by (rule mult_le_mono1)
  then have M: "?M + ?N \<le> 2 ^ ?e * ?N" by simp
  have "2 * round_to_53_bits ?M \<le> 2 * ?M + 2 ^ k"
    unfolding k_def by (rule round_to_53_bits_le)
  with k M have "round_to_53_bits ?M < ?N * 2 ^ ?e"
    by (simp add: mult.commute)
  then have "round_to_53_bits ?M div 2 ^ ?e < ?N"
    by (rule less_mult_imp_div_less)
  then show "floor_of_product u n < n"
    using assms(2) by (simp add: floor_of_product_def)
  show "0 \<le> floor_of_product u n"
    by (simp add: floor_of_product_def)
qed

lemma add_mod_exact:
  assumes "7 \<le> r" and "r \<le> 858993457" and "0 \<le> x"
  shows "add_int (add_int 5 (c_div r 2)) (c_mod x (add_int (mul_int r 2) 1)) =
         5 + r div 2 + x mod (r * 2 + 1)"
proof -
  have a: "0 \<le> r div 2" using assms(1) by simp
  have b: "r div 2 \<le> 858993457 div 2"
    using assms(2) by (intro zdiv_mono1) simp_all
  have 1: "mul_int r 2 = r * 2"
    using assms by (intro mul_int_id) linarith+
  have 2: "add_int (r * 2) 1 = r * 2 + 1"
    using assms by (intro add_int_id) linarith+
  have m0: "0 \<le> x mod (r * 2 + 1)"
    using assms(1) by simp
  have m1: "x mod (r * 2 + 1) \<le> r * 2"
    using pos_mod_bound[of "r * 2 + 1" x] assms(1) by linarith
  have 3: "add_int 5 (r div 2) = 5 + r div 2"
    using a b by (intro add_int_id) simp_all
  have 4: "add_int (5 + r div 2) (x mod (r * 2 + 1)) = 5 + r div 2 + x mod (r * 2 + 1)"
    using a b m0 m1 assms(2) by (intro add_int_id) linarith+
  have d: "c_div r 2 = r div 2"
    using assms(1) by (simp add: c_div_nonneg)
  have m: "c_mod x (r * 2 + 1) = x mod (r * 2 + 1)"
    using assms(1,3) by (simp add: c_mod_nonneg)
  show ?thesis
    by (simp only: 1 2 3 4 d m)
qed

text \<open>
  The double nearest to one third times 15: the exact product is just below 5 and rounds
  to 5.
\<close>

lemma floor_of_product_example:
  "floor_of_product \<lparr>significand = 6004799503160661, scale = 54\<rparr> 15 = 5"
  by (simp add: generator_defs)

section \<open>Facts about the C validator\<close>









lemma no_consecutive_loop_failure:
  "no_consecutive_loop password len i = Inr (Some f) \<Longrightarrow> \<exists>a b j. f = Consecutive_chars a b j"
proof (induction password len i rule: no_consecutive_loop.induct)
  case (1 password len i)
  from "1.prems" show ?case
    by (subst (asm) no_consecutive_loop.simps)
       (auto split: if_splits sum.splits intro: "1.IH")
qed

lemma noConsecutiveLoop_failure:
  "noConsecutiveLoop password len i = Some f \<Longrightarrow> \<exists>a b j. f = Consecutive_chars a b j"
proof (induction password len i rule: noConsecutiveLoop.induct)
  case (1 password len i)
  from "1.prems" show ?case
    by (subst (asm) noConsecutiveLoop.simps)
       (auto split: if_splits intro: "1.IH")
qed

lemma no_consecutive_chars_block_failure:
  "no_consecutive_chars_block password len reqs = Inr (Some f) \<Longrightarrow>
   \<exists>a b j. f = Consecutive_chars a b j"
  by (auto simp: no_consecutive_chars_block_def split: if_splits dest: no_consecutive_loop_failure)

lemma noConsecutiveCharsBlock_failure:
  "noConsecutiveCharsBlock password len reqs = Some f \<Longrightarrow> \<exists>a b j. f = Consecutive_chars a b j"
  by (auto simp: noConsecutiveCharsBlock_def split: if_splits dest: noConsecutiveLoop_failure)

lemma palindrome_block_failure:
  "palindrome_block password len reqs = Inr (Some f) \<Longrightarrow> f = Not_palindrome"
  by (auto simp: palindrome_block_def split: if_splits sum.splits)

lemma palindromeBlock_failure:
  "palindromeBlock password reqs = Some f \<Longrightarrow> f = Not_palindrome"
  by (auto simp: palindromeBlock_def Let_def split: if_splits)

lemma start_upper_end_symbol_block_failure:
  "start_upper_end_symbol_block password len reqs = Inr (Some f) \<Longrightarrow>
   f = Must_start_upper \<or> f = Must_end_symbol \<or> (f = Empty_start_end \<and> len = 0)"
  by (auto simp: start_upper_end_symbol_block_def split: if_splits sum.splits)

lemma startUpperEndSymbolBlock_failure:
  "startUpperEndSymbolBlock password len reqs = Some f \<Longrightarrow>
   f = Must_start_upper \<or> f = Must_end_symbol \<or> (f = Empty_start_end \<and> len = 0)"
  by (auto simp: startUpperEndSymbolBlock_def split: if_splits)

lemma digit_sum_block_failure:
  "digit_sum_block cnt reqs = Inr (Some f) \<Longrightarrow>
   f = Impossible_digit_sum \<or> f = Digit_sum_mismatch (current_digit_sum cnt) (digit_sum_target reqs)"
  by (auto simp: digit_sum_block_def split: if_splits)

lemma digitSumBlock_failure:
  "digitSumBlock cnt reqs = Some f \<Longrightarrow>
   f = Impossible_digit_sum \<or> f = Digit_sum_mismatch (current_digit_sum cnt) (digitSumTarget reqs)"
  by (auto simp: digitSumBlock_def split: if_splits)



lemmas validator_defs =
  validate_password_def validatePassword_def Let_def and_then_def andThen_def
  start_upper_end_symbol_block_def no_consecutive_chars_block_def palindrome_block_def
  digit_sum_block_def startUpperEndSymbolBlock_def noConsecutiveCharsBlock_def
  palindromeBlock_def digitSumBlock_def count_step_def countStep_def zero_counts_def
  isupper_def islower_def isdigit_def ispunct_def isspace_def isprint_def char_code_def NUL_def
  js_upper_def js_lower_def js_digit_def js_space_def isSymbol_def c_at_def js_at_def
  memset_zero_def reset_requirements_def c_div_def
  no_consecutive_loop.simps palindrome_loop.simps noConsecutiveLoop.simps

lemma and_then_Invalid:
  "and_then block rest = Inr (Invalid f) \<Longrightarrow>
   block = Inr (Some f) \<or> (block = Inr None \<and> rest = Inr (Invalid f))"
  by (auto simp: and_then_def split: sum.splits option.splits)

lemma andThen_Invalid:
  "andThen block rest = Invalid f \<Longrightarrow> block = Some f \<or> (block = None \<and> rest = Invalid f)"
  by (auto simp: andThen_def split: option.splits)

lemma validate_password_no_empty_branch:
  assumes "1 \<le> min_length reqs"
  shows "validate_password password reqs \<noteq> Inr (Invalid Empty_start_end)"
proof
  assume v: "validate_password password reqs = Inr (Invalid Empty_start_end)"
  then have len: "\<not> strlen password < min_length reqs"
    by (auto simp: validate_password_def Let_def split: if_splits)
  with v have "and_then (start_upper_end_symbol_block password (strlen password) reqs)
      (and_then (no_consecutive_chars_block password (strlen password) reqs)
        (and_then (palindrome_block password (strlen password) reqs)
          (and_then (digit_sum_block (count_loop password zero_counts) reqs) (Inr Valid)))) =
     Inr (Invalid Empty_start_end)"
    by (simp add: validate_password_def Let_def split: if_splits)
  then consider
      "start_upper_end_symbol_block password (strlen password) reqs = Inr (Some Empty_start_end)"
    | "no_consecutive_chars_block password (strlen password) reqs = Inr (Some Empty_start_end)"
    | "palindrome_block password (strlen password) reqs = Inr (Some Empty_start_end)"
    | "digit_sum_block (count_loop password zero_counts) reqs = Inr (Some Empty_start_end)"
    by (auto dest!: and_then_Invalid)
  then show False
  proof cases
    case 1
    then have "strlen password = 0"
      by (auto dest: start_upper_end_symbol_block_failure)
    with len assms show False by simp
  next
    case 2
    then show False by (auto dest: no_consecutive_chars_block_failure)
  next
    case 3
    then show False by (auto dest: palindrome_block_failure)
  next
    case 4
    then show False by (auto dest: digit_sum_block_failure)
  qed
qed

lemma validatePassword_no_empty_branch:
  assumes "1 \<le> minLength reqs"
  shows "validatePassword password reqs \<noteq> Invalid Empty_start_end"
proof
  assume v: "validatePassword password reqs = Invalid Empty_start_end"
  then have len: "\<not> int (length password) < minLength reqs"
    by (auto simp: validatePassword_def Let_def split: if_splits)
  with v have "andThen (startUpperEndSymbolBlock password (int (length password)) reqs)
      (andThen (noConsecutiveCharsBlock password (int (length password)) reqs)
        (andThen (palindromeBlock password reqs)
          (andThen (digitSumBlock (countLoop password zero_counts) reqs) Valid))) =
     Invalid Empty_start_end"
    by (simp add: validatePassword_def Let_def split: if_splits)
  then consider
      "startUpperEndSymbolBlock password (int (length password)) reqs = Some Empty_start_end"
    | "noConsecutiveCharsBlock password (int (length password)) reqs = Some Empty_start_end"
    | "palindromeBlock password reqs = Some Empty_start_end"
    | "digitSumBlock (countLoop password zero_counts) reqs = Some Empty_start_end"
    by (auto dest!: andThen_Invalid)
  then show False
  proof cases
    case 1
    then have "int (length password) = 0"
      by (auto dest: startUpperEndSymbolBlock_failure)
    with len assms show False by simp
  next
    case 2
    then show False by (auto dest: noConsecutiveCharsBlock_failure)
  next
    case 3
    then show False by (auto dest: palindromeBlock_failure)
  next
    case 4
    then show False by (auto dest: digitSumBlock_failure)
  qed
qed



lemma char_code_range: "0 \<le> char_code c" "char_code c < 256"
proof -
  have "0 \<le> (of_char c :: int) mod 256"
    by (rule pos_mod_sign) simp
  then show "0 \<le> char_code c"
    unfolding char_code_def by (simp only: of_char_mod_256)
  have "(of_char c :: int) mod 256 < 256"
    by (rule pos_mod_bound) simp
  then show "char_code c < 256"
    unfolding char_code_def by (simp only: of_char_mod_256)
qed










section \<open>Facts about the agreement of the two validators\<close>





















section \<open>Facts about the validators and the validator of the specification\<close>
























text \<open>
  From round 63 on, no password that fits the input buffer of the C front end (at most 99
  characters) is valid. \<^verbatim>\<open>main\<close> adds 1 to its round only after a valid password, so the
  rounds that the C program itself passes to the generator end there.
\<close>

lemma round_63_cannot_be_won:
  assumes "63 \<le> r" and "r \<le> 1431655761" and "strlen password \<le> 99"
  shows "validate_password password (generate_requirements r x) =
     Inr (Invalid (Too_short (strlen password) (min_length (generate_requirements r x))))"
proof -
  have r: "1 \<le> r"
    using assms(1) by simp
  have "31 \<le> r div 2"
    using assms(1) by simp
  then have "100 \<le> min_length (generate_requirements r x)"
    using generate_requirements_min_length_ge[OF r assms(2), of x] assms(1) by linarith
  with assms(3) have "strlen password < min_length (generate_requirements r x)"
    by linarith
  then show ?thesis
    by (simp add: validate_password_def)
qed

text \<open>The examples of the specification, on both validators.\<close>

lemma specification_examples:
  "validate_password ''Ab1!''
     (memset_zero\<lparr>min_length := 4, min_uppercase := 1, min_lowercase := 1, min_digits := 1,
        min_symbols := 1\<rparr>) = Inr Valid"
  "validate_password ''aabb'' (memset_zero\<lparr>min_length := 4, req_no_consecutive_chars := 1\<rparr>) =
     Inr (Invalid (Consecutive_chars CHR ''a'' CHR ''a'' 0))"
  "validate_password ''ABA'' (memset_zero\<lparr>min_length := 3, req_palindrome := 1\<rparr>) = Inr Valid"
  "validate_password ''A1''
     (memset_zero\<lparr>min_length := 2, min_digits := 1, req_digit_sum := 1, digit_sum_target := 1\<rparr>) =
     Inr Valid"
  "validate_password ''A1''
     (memset_zero\<lparr>min_length := 2, min_digits := 1, req_digit_sum := 1, digit_sum_target := 2\<rparr>) =
     Inr (Invalid (Digit_sum_mismatch 1 2))"
  "validatePassword [0x41, 0x62, 0x31, 0x21]
     (reset_requirements\<lparr>minLength := 4, minUppercase := 1, minLowercase := 1, minDigits := 1,
        minSymbols := 1\<rparr>) = Valid"
  "validatePassword [0x61, 0x61, 0x62, 0x62]
     (reset_requirements\<lparr>minLength := 4, reqNoConsecutiveChars := True\<rparr>) =
     Invalid (Consecutive_chars (Some 0x61) (Some 0x61) 0)"
  "validatePassword [0x41, 0x42, 0x41] (reset_requirements\<lparr>minLength := 3, reqPalindrome := True\<rparr>) =
     Valid"
  "validatePassword [0x41, 0x31]
     (reset_requirements\<lparr>minLength := 2, minDigits := 1, reqDigitSum := True, digitSumTarget := 1\<rparr>) =
     Valid"
  "validatePassword [0x41, 0x31]
     (reset_requirements\<lparr>minLength := 2, minDigits := 1, reqDigitSum := True, digitSumTarget := 2\<rparr>) =
     Invalid (Digit_sum_mismatch 1 2)"
  by (simp_all add: validator_defs)

section \<open>The claims about the generators\<close>

text \<open>
  Claim C5 says that for every round \<open>r \<ge> 1\<close> the generator sets the minimum length to
  \<open>6 + r + r div 2\<close> before clamping. The C generator computes on \<^verbatim>\<open>int\<close>: at round
  2000000000 the sum wraps around to a negative number, and the record that the function
  returns has the minimum length 2.
\<close>

theorem basic_minimums_counterexample:
  "min_length (basic_requirements 2000000000 memset_zero) = - 1294967290 \<and>
   min_length (basic_requirements 2000000000 memset_zero) \<noteq> 6 + 2000000000 + 2000000000 div 2 \<and>
   min_length (generate_requirements 2000000000 0) = 2"
  by (simp add: generate_requirements_sel generator_defs)

text \<open>
  Claim C5, as the code has it. For every round \<open>r\<close> from 1 to 1431655761, the last round
  for which \<open>6 + r + r div 2\<close> fits the C \<^verbatim>\<open>int\<close>, the basic block of the C generator sets
  the minimum length to \<open>6 + r + r div 2\<close>, the minimums of uppercase and of lowercase
  letters to \<open>1 + r div 2\<close>, of digits to \<open>1 + r div 3\<close>, and of symbols to 0 in round 1
  and \<open>1 + (r - 1) div 3\<close> after it. The later blocks leave the four per-class minimums
  as they are and, up to round 1288490187, raise the minimum length to their sum where it
  is smaller. The JavaScript generator does the same for every round \<open>k\<close> from 1 to
  \<open>2^51\<close>, where all its values are integers that a double holds exactly. Round 1 gives
  length 7, one uppercase letter, one lowercase letter, one digit, no symbol, and no
  special rule.
\<close>

theorem generate_basic_minimums:
  assumes "1 \<le> r" and "r \<le> 1431655761" and "1 \<le> k" and "k \<le> 2251799813685248"
  shows "min_length (basic_requirements r memset_zero) = 6 + r + r div 2 \<and>
         min_uppercase (basic_requirements r memset_zero) = 1 + r div 2 \<and>
         min_lowercase (basic_requirements r memset_zero) = 1 + r div 2 \<and>
         min_digits (basic_requirements r memset_zero) = 1 + r div 3 \<and>
         min_symbols (basic_requirements r memset_zero) = (if r = 1 then 0 else 1 + (r - 1) div 3) \<and>
         min_uppercase (generate_requirements r x) = 1 + r div 2 \<and>
         min_lowercase (generate_requirements r x) = 1 + r div 2 \<and>
         min_digits (generate_requirements r x) = 1 + r div 3 \<and>
         min_symbols (generate_requirements r x) = (if r = 1 then 0 else 1 + (r - 1) div 3) \<and>
         (r \<le> 1288490187 \<longrightarrow>
            min_length (generate_requirements r x) =
              max (6 + r + r div 2)
                (min_uppercase (generate_requirements r x) + min_lowercase (generate_requirements r x) +
                 min_digits (generate_requirements r x) + min_symbols (generate_requirements r x))) \<and>
         minLength (basicRequirements k reset_requirements) = 6 + k + k div 2 \<and>
         minUppercase (generateRequirements k u) = 1 + k div 2 \<and>
         minLowercase (generateRequirements k u) = 1 + k div 2 \<and>
         minDigits (generateRequirements k u) = 1 + k div 3 \<and>
         minSymbols (generateRequirements k u) = (if k = 1 then 0 else 1 + (k - 1) div 3) \<and>
         minLength (generateRequirements k u) =
           max (6 + k + k div 2)
             (minUppercase (generateRequirements k u) + minLowercase (generateRequirements k u) +
              minDigits (generateRequirements k u) + minSymbols (generateRequirements k u)) \<and>
         generate_requirements 1 x =
           \<lparr>min_length = 7, min_uppercase = 1, min_lowercase = 1, min_digits = 1, min_symbols = 0,
            req_start_upper_end_symbol = 0, req_no_consecutive_chars = 0, req_palindrome = 0,
            req_digit_sum = 0, digit_sum_target = 0\<rparr> \<and>
         generateRequirements 1 u =
           \<lparr>minLength = 7, minUppercase = 1, minLowercase = 1, minDigits = 1, minSymbols = 0,
            reqStartUpperEndSymbol = False, reqNoConsecutiveChars = False, reqPalindrome = False,
            reqDigitSum = False, digitSumTarget = 0\<rparr>"
proof -
  have i: "r \<le> 2147483647"
    using assms(2) by simp
  note e = basic_minimums_exact[OF assms(1) i]
  have b: "min_length (basic_requirements r memset_zero) = 6 + r + r div 2"
    by (simp add: basic_requirements_sel basic_length_exact[OF assms(1,2)])
  have bc: "min_uppercase (basic_requirements r memset_zero) = 1 + r div 2"
    "min_lowercase (basic_requirements r memset_zero) = 1 + r div 2"
    "min_digits (basic_requirements r memset_zero) = 1 + r div 3"
    "min_symbols (basic_requirements r memset_zero) = (if r = 1 then 0 else 1 + (r - 1) div 3)"
    using assms(1) by (simp_all add: basic_requirements_sel e)
  have l: "min_length (generate_requirements r x) =
              max (6 + r + r div 2)
                (min_uppercase (generate_requirements r x) + min_lowercase (generate_requirements r x) +
                 min_digits (generate_requirements r x) + min_symbols (generate_requirements r x))"
    if "r \<le> 1288490187"
    unfolding generate_requirements_counts[OF assms(1) i]
    by (rule generate_requirements_min_length[OF assms(1) that])
  have jb: "minLength (basicRequirements k reset_requirements) = 6 + k + k div 2"
    by (simp add: basicRequirements_sel)
  have c1: "generate_requirements 1 x =
           \<lparr>min_length = 7, min_uppercase = 1, min_lowercase = 1, min_digits = 1, min_symbols = 0,
            req_start_upper_end_symbol = 0, req_no_consecutive_chars = 0, req_palindrome = 0,
            req_digit_sum = 0, digit_sum_target = 0\<rparr>"
    by (simp add: generator_defs)
  have j1: "generateRequirements 1 u =
           \<lparr>minLength = 7, minUppercase = 1, minLowercase = 1, minDigits = 1, minSymbols = 0,
            reqStartUpperEndSymbol = False, reqNoConsecutiveChars = False, reqPalindrome = False,
            reqDigitSum = False, digitSumTarget = 0\<rparr>"
    by (simp add: generator_defs)
  have jl: "minLength (generateRequirements k u) =
           max (6 + k + k div 2)
             (minUppercase (generateRequirements k u) + minLowercase (generateRequirements k u) +
              minDigits (generateRequirements k u) + minSymbols (generateRequirements k u))"
    unfolding generateRequirements_counts(1-4)[OF assms(3)]
    by (rule generateRequirements_counts(5)[OF assms(3)])
  show ?thesis
    using b bc l jb c1 j1 jl generate_requirements_counts[OF assms(1) i, of x]
      generateRequirements_counts(1-4)[OF assms(3), of u]
    by blast
qed

theorem generate_basic_minimums_witness:
  "min_length (generate_requirements 4 0) = 12 \<and> min_uppercase (generate_requirements 4 0) = 3 \<and>
   min_lowercase (generate_requirements 4 0) = 3 \<and> min_digits (generate_requirements 4 0) = 2 \<and>
   min_symbols (generate_requirements 4 0) = 2 \<and>
   minLength (generateRequirements 4 \<lparr>significand = 1, scale = 1\<rparr>) = 12 \<and>
   minSymbols (generateRequirements 4 \<lparr>significand = 1, scale = 1\<rparr>) = 2"
  using generate_basic_minimums[of 4 4 0 "\<lparr>significand = 1, scale = 1\<rparr>"] by simp

text \<open>
  Claim C3 says that for every round \<open>r \<ge> 1\<close> the generated requirements satisfy I1. In
  the C generator the sum of the four per-class minimums wraps around at large rounds: at
  round 2000000000 the function returns the minimum length 2 with class minimums whose
  sum is 3333333336.
\<close>

theorem length_invariant_counterexample:
  "min_length (generate_requirements 2000000000 0) = 2 \<and>
   min_uppercase (generate_requirements 2000000000 0) = 1000000001 \<and>
   min_lowercase (generate_requirements 2000000000 0) = 1000000001 \<and>
   min_digits (generate_requirements 2000000000 0) = 666666667 \<and>
   min_symbols (generate_requirements 2000000000 0) = 666666667 \<and>
   \<not> invariant_I1 (generate_requirements 2000000000 0)"
  by (simp add: invariant_I1_def generate_requirements_sel generator_defs)

text \<open>
  Claim C3, as the code has it. The requirements that the C generator produces for a round
  \<open>r\<close> from 1 to 1288490187, the last round for which the sum of the four per-class
  minimums fits the C \<^verbatim>\<open>int\<close>, satisfy I1: the minimum length is at least that sum. For
  every round that is a positive \<^verbatim>\<open>int\<close> they satisfy I2 from round 3 on (the start and
  end rule comes with at least one uppercase letter, one symbol and a length of 2) and I3
  from round 7 on (the digit-sum rule comes with at least one digit). The requirements of
  the JavaScript generator satisfy the three invariants for every round \<open>k\<close> from 1 to
  \<open>2^51\<close>, where all its values are integers that a double holds exactly. \<open>x\<close> and \<open>u\<close>
  are the values of the random sources.
\<close>

theorem generated_requirements_invariants:
  assumes "1 \<le> r" and "r \<le> 2147483647" and "1 \<le> k" and "k \<le> 2251799813685248"
  shows "(r \<le> 1288490187 \<longrightarrow> invariant_I1 (generate_requirements r x)) \<and>
         (3 \<le> r \<longrightarrow> invariant_I2 (generate_requirements r x)) \<and>
         (7 \<le> r \<longrightarrow> invariant_I3 (generate_requirements r x)) \<and>
         invariantI1 (generateRequirements k u) \<and>
         (3 \<le> k \<longrightarrow> invariantI2 (generateRequirements k u)) \<and>
         (7 \<le> k \<longrightarrow> invariantI3 (generateRequirements k u))"
proof -
  have a: "0 \<le> r div 2" "0 \<le> r div 3" "0 \<le> (r - 1) div 3"
    using assms(1) by simp_all
  have ja: "0 \<le> k div 2" "0 \<le> k div 3" "0 \<le> (k - 1) div 3"
    using assms(3) by simp_all
  note c = generate_requirements_counts[OF assms(1,2), of x]
  have c1: "invariant_I1 (generate_requirements r x)" if "r \<le> 1288490187"
    using assms(1) that by (rule generate_requirements_I1)
  have cl: "2 \<le> min_length (generate_requirements r x)" if "3 \<le> r"
    using that by (rule generate_requirements_min_length_ge_2)
  have cu: "1 \<le> min_uppercase (generate_requirements r x)"
    using a(1) by (simp add: c(1))
  have cs: "1 \<le> min_symbols (generate_requirements r x)" if "3 \<le> r"
    using a(3) that by (simp add: c(4))
  have cd: "1 \<le> min_digits (generate_requirements r x)"
    using a(2) by (simp add: c(3))
  have c2: "invariant_I2 (generate_requirements r x)" if "3 \<le> r"
    unfolding invariant_I2_def using cl[OF that] cu cs[OF that] by simp
  have c3: "invariant_I3 (generate_requirements r x)"
    unfolding invariant_I3_def using cd by simp
  have jl: "2 \<le> minLength (generateRequirements k u)"
    using generateRequirements_minLength_ge[OF assms(3), of u] ja(1) assms(3) by linarith
  have ju: "1 \<le> minUppercase (generateRequirements k u)"
    using ja(1) by (simp add: generateRequirements_counts(1)[OF assms(3)])
  have js: "1 \<le> minSymbols (generateRequirements k u)" if "3 \<le> k"
    using ja(3) that by (simp add: generateRequirements_counts(4)[OF assms(3)])
  have jd: "1 \<le> minDigits (generateRequirements k u)"
    using ja(2) by (simp add: generateRequirements_counts(3)[OF assms(3)])
  have j2: "invariantI2 (generateRequirements k u)" if "3 \<le> k"
    unfolding invariantI2_def using jl ju js[OF that] by simp
  have j3: "invariantI3 (generateRequirements k u)"
    unfolding invariantI3_def using jd by simp
  show ?thesis
    using c1 c2 c3 j2 j3 generateRequirements_I1 by blast
qed

theorem generated_requirements_invariants_witness:
  "invariant_I1 (generate_requirements 8 3) \<and> invariant_I2 (generate_requirements 8 3) \<and>
   invariant_I3 (generate_requirements 8 3) \<and>
   invariantI1 (generateRequirements 8 \<lparr>significand = 1, scale = 1\<rparr>) \<and>
   invariantI2 (generateRequirements 8 \<lparr>significand = 1, scale = 1\<rparr>) \<and>
   invariantI3 (generateRequirements 8 \<lparr>significand = 1, scale = 1\<rparr>) \<and>
   req_start_upper_end_symbol (generate_requirements 8 3) \<noteq> 0 \<and>
   req_digit_sum (generate_requirements 8 3) \<noteq> 0 \<and>
   reqStartUpperEndSymbol (generateRequirements 8 \<lparr>significand = 1, scale = 1\<rparr>) \<and>
   reqDigitSum (generateRequirements 8 \<lparr>significand = 1, scale = 1\<rparr>)"
  using generated_requirements_invariants[of 8 8 3 "\<lparr>significand = 1, scale = 1\<rparr>"]
  by (simp add: generate_requirements_flags generateRequirements_flags)

text \<open>
  Claim C6. In the requirements of round \<open>r\<close>, whatever the random source gives: the start
  and end rule is on exactly when \<open>r \<ge> 3\<close>, the no-consecutive rule exactly when \<open>r \<ge> 4\<close>,
  the digit-sum rule exactly when \<open>r \<ge> 7\<close>, and the palindrome rule exactly when \<open>r = 5\<close>.
\<close>

theorem generated_flags:
  "(req_start_upper_end_symbol (generate_requirements r x) \<noteq> 0 \<longleftrightarrow> 3 \<le> r) \<and>
   (req_no_consecutive_chars (generate_requirements r x) \<noteq> 0 \<longleftrightarrow> 4 \<le> r) \<and>
   (req_digit_sum (generate_requirements r x) \<noteq> 0 \<longleftrightarrow> 7 \<le> r) \<and>
   (req_palindrome (generate_requirements r x) \<noteq> 0 \<longleftrightarrow> r = 5) \<and>
   (reqStartUpperEndSymbol (generateRequirements r u) \<longleftrightarrow> 3 \<le> r) \<and>
   (reqNoConsecutiveChars (generateRequirements r u) \<longleftrightarrow> 4 \<le> r) \<and>
   (reqDigitSum (generateRequirements r u) \<longleftrightarrow> 7 \<le> r) \<and>
   (reqPalindrome (generateRequirements r u) \<longleftrightarrow> r = 5)"
  by (simp add: generate_requirements_flags generateRequirements_flags)

theorem generated_flags_witness:
  "req_palindrome (generate_requirements 5 0) \<noteq> 0 \<and> req_palindrome (generate_requirements 4 0) = 0 \<and>
   req_palindrome (generate_requirements 6 0) = 0 \<and>
   reqPalindrome (generateRequirements 5 \<lparr>significand = 1, scale = 1\<rparr>) \<and>
   \<not> reqPalindrome (generateRequirements 4 \<lparr>significand = 1, scale = 1\<rparr>) \<and>
   \<not> reqPalindrome (generateRequirements 6 \<lparr>significand = 1, scale = 1\<rparr>) \<and>
   req_digit_sum (generate_requirements 7 0) \<noteq> 0 \<and> req_digit_sum (generate_requirements 6 0) = 0"
  using generated_flags[of 5 0 "\<lparr>significand = 1, scale = 1\<rparr>"]
    generated_flags[of 4 0 "\<lparr>significand = 1, scale = 1\<rparr>"]
    generated_flags[of 6 0 "\<lparr>significand = 1, scale = 1\<rparr>"]
    generated_flags[of 7 0 "\<lparr>significand = 1, scale = 1\<rparr>"]
  by simp

text \<open>
  Claim C7 says that for every round \<open>r \<ge> 7\<close> and every value of the random source the
  digit-sum target lies between \<open>5 + r div 2\<close> and \<open>5 + r div 2 + 2 * r\<close>. In the C
  generator the sum wraps around at large rounds: at round 1073741823 with the value
  2000000000 of \<^verbatim>\<open>rand()\<close> the target is negative.
\<close>

theorem digit_sum_target_counterexample:
  "digit_sum_target (generate_requirements 1073741823 2000000000) = - 1758096380 \<and>
   \<not> 5 + 1073741823 div 2 \<le> digit_sum_target (generate_requirements 1073741823 2000000000)"
  by (simp add: generate_requirements_flags generator_defs)

text \<open>
  Claim C7, as the code has it. In the C generator, for every round \<open>r\<close> from 7 to
  858993457, the last round for which \<open>5 + r div 2 + 2 * r\<close> fits the C \<^verbatim>\<open>int\<close>, and every
  value \<open>x \<ge> 0\<close> that \<^verbatim>\<open>rand()\<close> returns, the digit-sum target is \<open>5 + r div 2\<close> plus a
  value in \<open>{0, ..., 2 * r}\<close>. In the JavaScript generator the same holds for every round
  \<open>k\<close> from 7 to \<open>2^51\<close>, where all its integers are held exactly, and every double
  \<open>0 \<le> u < 1\<close> that \<^verbatim>\<open>Math.random()\<close> returns, with the product rounded as a double.
\<close>

theorem digit_sum_target_range:
  assumes "7 \<le> r" and "r \<le> 858993457" and "0 \<le> x" and "7 \<le> k" and "unit_double u"
    and "k \<le> 2251799813685248"
  shows "digit_sum_target (generate_requirements r x) - (5 + r div 2) \<in> {0 .. 2 * r} \<and>
         5 + r div 2 \<le> digit_sum_target (generate_requirements r x) \<and>
         digit_sum_target (generate_requirements r x) \<le> 5 + r div 2 + 2 * r \<and>
         digitSumTarget (generateRequirements k u) - (5 + k div 2) \<in> {0 .. 2 * k} \<and>
         5 + k div 2 \<le> digitSumTarget (generateRequirements k u) \<and>
         digitSumTarget (generateRequirements k u) \<le> 5 + k div 2 + 2 * k"
proof -
  have m0: "0 \<le> x mod (r * 2 + 1)"
    using assms(1) by simp
  have m1: "x mod (r * 2 + 1) \<le> r * 2"
    using pos_mod_bound[of "r * 2 + 1" x] assms(1) by linarith
  have t: "digit_sum_target (generate_requirements r x) = 5 + r div 2 + x mod (r * 2 + 1)"
    using assms(1) by (simp add: generate_requirements_flags add_mod_exact[OF assms(1-3)])
  have n: "0 < k * 2 + 1"
    using assms(4) by simp
  note f = floor_of_product_range[OF assms(5) n]
  have j: "digitSumTarget (generateRequirements k u) = 5 + k div 2 + floor_of_product u (k * 2 + 1)"
    using assms(4) by (simp add: generateRequirements_flags)
  show ?thesis
    unfolding t j atLeastAtMost_iff using m0 m1 f by (intro conjI; linarith)
qed

theorem digit_sum_target_range_witness:
  "digit_sum_target (generate_requirements 7 100) = 18 \<and> (5::int) + 7 div 2 = 8 \<and>
   digit_sum_target (generate_requirements 7 100) \<le> 5 + 7 div 2 + 2 * 7 \<and>
   unit_double \<lparr>significand = 6004799503160661, scale = 54\<rparr> \<and>
   digitSumTarget (generateRequirements 7 \<lparr>significand = 6004799503160661, scale = 54\<rparr>) = 13"
  using digit_sum_target_range[of 7 100 7 "\<lparr>significand = 6004799503160661, scale = 54\<rparr>"]
  by (simp add: generate_requirements_flags generateRequirements_flags generator_defs unit_double_def)

section \<open>The claims about the validators\<close>







text \<open>
  Claim C10 says that for every round \<open>r \<ge> 1\<close> the generated minimum length is at least
  7. In the C generator \<open>6 + r + r div 2\<close> wraps around from round 1431655762 on, and
  the function returns the minimum length 2 there, as it does at round 2000000000.
\<close>

theorem generated_length_counterexample:
  "min_length (generate_requirements 2000000000 0) = 2 \<and>
   \<not> 7 \<le> min_length (generate_requirements 2000000000 0) \<and>
   min_length (generate_requirements 1431655762 0) = 2"
  by (simp add: generate_requirements_sel generator_defs)

text \<open>
  Claim C10, as the code has it. The minimum length that the C generator produces is at
  least 7 for every round \<open>r\<close> from 1 to 1431655761, the last round for which
  \<open>6 + r + r div 2\<close> fits the C \<^verbatim>\<open>int\<close>, and at least 1 for every round that is a
  positive \<^verbatim>\<open>int\<close>; the minimum length of the JavaScript generator is at least 7 for
  every round \<open>k\<close> from 1 to \<open>2^51\<close>, where all its values are integers that a double
  holds exactly. So for every such round the empty password fails the length check of the
  generated requirements, and no password reaches the branch for the empty password inside the
  start and end rule: the failure \<open>Empty_start_end\<close>, which only that branch reports, is
  never the verdict.
\<close>

theorem generated_length_excludes_empty_password:
  assumes "1 \<le> r" and "1 \<le> k" and "r \<le> 2147483647" and "k \<le> 2251799813685248"
  shows "(r \<le> 1431655761 \<longrightarrow> 7 \<le> min_length (generate_requirements r x)) \<and>
         1 \<le> min_length (generate_requirements r x) \<and>
         validate_password [] (generate_requirements r x) =
           Inr (Invalid (Too_short 0 (min_length (generate_requirements r x)))) \<and>
         validate_password password (generate_requirements r x) \<noteq> Inr (Invalid Empty_start_end) \<and>
         7 \<le> minLength (generateRequirements k u) \<and>
         validatePassword [] (generateRequirements k u) =
           Invalid (Too_short 0 (minLength (generateRequirements k u))) \<and>
         validatePassword js_password (generateRequirements k u) \<noteq> Invalid Empty_start_end"
proof -
  have c7: "7 \<le> min_length (generate_requirements r x)" if "r \<le> 1431655761"
  proof -
    have "0 \<le> r div 2"
      using assms(1) by simp
    then show ?thesis
      using generate_requirements_min_length_ge[OF assms(1) that, of x] assms(1) by linarith
  qed
  have c: "1 \<le> min_length (generate_requirements r x)"
    using assms(1) by (rule generate_requirements_min_length_pos)
  have "0 \<le> k div 2"
    using assms(2) by simp
  then have j: "7 \<le> minLength (generateRequirements k u)"
    using generateRequirements_minLength_ge[OF assms(2), of u] assms(2) by linarith
  have ce: "validate_password [] (generate_requirements r x) =
           Inr (Invalid (Too_short 0 (min_length (generate_requirements r x))))"
    using c by (simp add: validate_password_def)
  have je: "validatePassword [] (generateRequirements k u) =
           Invalid (Too_short 0 (minLength (generateRequirements k u)))"
    using j by (simp add: validatePassword_def)
  have cn: "validate_password password (generate_requirements r x) \<noteq> Inr (Invalid Empty_start_end)"
    using c by (rule validate_password_no_empty_branch)
  have jn: "validatePassword js_password (generateRequirements k u) \<noteq> Invalid Empty_start_end"
    using j by (intro validatePassword_no_empty_branch) linarith
  show ?thesis
    using c7 c j ce je cn jn by blast
qed

theorem generated_length_excludes_empty_password_witness:
  "min_length (generate_requirements 3 0) = 10 \<and>
   validate_password [] (generate_requirements 3 0) = Inr (Invalid (Too_short 0 10)) \<and>
   req_start_upper_end_symbol (generate_requirements 3 0) \<noteq> 0 \<and>
   validate_password ''Password1!'' (generate_requirements 3 0) \<noteq> Inr (Invalid Empty_start_end) \<and>
   minLength (generateRequirements 3 \<lparr>significand = 1, scale = 1\<rparr>) = 10 \<and>
   validatePassword [] (generateRequirements 3 \<lparr>significand = 1, scale = 1\<rparr>) =
     Invalid (Too_short 0 10)"
  using generated_length_excludes_empty_password[of 3 3 0 "''Password1!''"
      "\<lparr>significand = 1, scale = 1\<rparr>" "[]"]
  by (simp add: generate_requirements_min_length generateRequirements_counts
      generate_requirements_flags)













end
